theory Spec2Isabelle
  imports Main
begin

section \<open>JavaScript values reaching the resolver\<close>

text \<open>
  The loader treats a loaded module as \<^verbatim>\<open>any\<close>: it reads the properties \<^verbatim>\<open>default\<close> and
  \<^verbatim>\<open>spawn\<close> and tests them for nullishness and truthiness. The values are modelled by a
  small datatype: the primitives, functions (named by a number, their behaviour is given by
  the host) and objects; functions and objects carry their own properties as a list, the
  first entry for a key being the one that counts. Numbers are integers here (no \<^verbatim>\<open>NaN\<close>);
  properties inherited from a prototype are not modelled.
\<close>

datatype jsval =
    JUndefined
  | JNull
  | JBool bool
  | JNum int
  | JStr string
  | JFun nat "(string \<times> jsval) list"
  | JObj "(string \<times> jsval) list"

fun truthy :: "jsval \<Rightarrow> bool" where
  "truthy JUndefined = False"
| "truthy JNull = False"
| "truthy (JBool b) = b"
| "truthy (JNum n) = (n \<noteq> 0)"
| "truthy (JStr s) = (s \<noteq> [])"
| "truthy (JFun f ps) = True"
| "truthy (JObj ps) = True"

fun nullish :: "jsval \<Rightarrow> bool" where
  "nullish JUndefined = True"
| "nullish JNull = True"
| "nullish v = False"

text \<open>\<^verbatim>\<open>v.k\<close> on a value that is neither \<^verbatim>\<open>null\<close> nor \<^verbatim>\<open>undefined\<close>.\<close>

fun get_prop :: "jsval \<Rightarrow> string \<Rightarrow> jsval" where
  "get_prop (JObj ps) k = (case map_of ps k of None \<Rightarrow> JUndefined | Some v \<Rightarrow> v)"
| "get_prop (JFun f ps) k = (case map_of ps k of None \<Rightarrow> JUndefined | Some v \<Rightarrow> v)"
| "get_prop v k = JUndefined"

text \<open>\<^verbatim>\<open>v?.k\<close> and \<^verbatim>\<open>a ?? b\<close>.\<close>

definition opt_chain :: "jsval \<Rightarrow> string \<Rightarrow> jsval" where
  "opt_chain v k = (if nullish v then JUndefined else get_prop v k)"

definition nullish_coalesce :: "jsval \<Rightarrow> jsval \<Rightarrow> jsval" where
  "nullish_coalesce a b = (if nullish a then b else a)"

section \<open>Errors\<close>

text \<open>
  \<^verbatim>\<open>class PtyError extends Error\<close> with its four codes. A thrown value is an \<^verbatim>\<open>Error\<close>
  (with an optional \<^verbatim>\<open>code\<close> property and a message), a \<^verbatim>\<open>PtyError\<close>, or any other value.
\<close>

datatype PtyErrorCode = NATIVE_NOT_FOUND | NATIVE_INVALID_EXPORT | SPAWN_FAILED | RESIZE_FAILED

fun code_text :: "PtyErrorCode \<Rightarrow> string" where
  "code_text NATIVE_NOT_FOUND = ''NATIVE_NOT_FOUND''"
| "code_text NATIVE_INVALID_EXPORT = ''NATIVE_INVALID_EXPORT''"
| "code_text SPAWN_FAILED = ''SPAWN_FAILED''"
| "code_text RESIZE_FAILED = ''RESIZE_FAILED''"

datatype thrown =
    JsError "string option" string
  | PtyError string PtyErrorCode
  | NonError jsval

text \<open>\<^verbatim>\<open>e instanceof Error\<close>, \<^verbatim>\<open>e.code\<close>, \<^verbatim>\<open>e.message\<close> and the truthiness of a thrown value.\<close>

fun instanceof_Error :: "thrown \<Rightarrow> bool" where
  "instanceof_Error (JsError c m) = True"
| "instanceof_Error (PtyError m c) = True"
| "instanceof_Error (NonError v) = False"

fun error_code :: "thrown \<Rightarrow> string option" where
  "error_code (JsError c m) = c"
| "error_code (PtyError m c) = Some (code_text c)"
| "error_code (NonError v) = None"


fun thrown_truthy :: "thrown \<Rightarrow> bool" where
  "thrown_truthy (NonError v) = truthy v"
| "thrown_truthy e = True"

section \<open>Process facts and the diagnostic channel\<close>

record process =
  platform :: string
  arch :: string
  env :: "string \<rightharpoonup> string"

text \<open>\<^verbatim>\<open>s.includes(t)\<close> on strings.\<close>

fun str_includes :: "string \<Rightarrow> string \<Rightarrow> bool" where
  "str_includes [] t = (t = [])"
| "str_includes (c # cs) t = (take (length t) (c # cs) = t \<or> str_includes cs t)"

definition PTY_DEBUG :: "process \<Rightarrow> bool" where
  "PTY_DEBUG p = (env p ''PTY_DEBUG'' = Some ''1'')"

datatype sink = ConsoleDebug | ConsoleError

datatype log_arg = ArgStr string | ArgThrown thrown

text \<open>One call of \<^verbatim>\<open>console.debug\<close> or \<^verbatim>\<open>console.error\<close>: the sink, the first argument, the rest.\<close>

datatype console_call = Console sink string "log_arg list"

definition logDebug :: "bool \<Rightarrow> string \<Rightarrow> log_arg list \<Rightarrow> console_call list \<Rightarrow> console_call list" where
  "logDebug dbg message args out =
     (if dbg then out @ [Console ConsoleDebug (''[PTY] '' @ message) args] else out)"

text \<open>\<^verbatim>\<open>console.error(`[PTY] ${message}`, error || '')\<close>: no test of the debug flag.\<close>

definition logError :: "string \<Rightarrow> thrown option \<Rightarrow> console_call list \<Rightarrow> console_call list" where
  "logError message error out =
     out @ [Console ConsoleError (''[PTY] '' @ message)
              [case error of
                 None \<Rightarrow> ArgStr []
               | Some e \<Rightarrow> (if thrown_truthy e then ArgThrown e else ArgStr [])]]"

section \<open>Provider resolution (getPty.ts)\<close>

datatype PtyProviderName = Mmmbuto_node_pty | Lydell_node_pty_linux_arm64

record pty_impl =
  module :: jsval
  name :: PtyProviderName

text \<open>\<^verbatim>\<open>PtyImplementation\<close> is a pair or \<^verbatim>\<open>null\<close>; here \<open>None\<close> is \<^verbatim>\<open>null\<close>.\<close>

type_synonym PtyImplementation = "pty_impl option"

text \<open>
  The module state: \<^verbatim>\<open>cached\<close> (\<open>None\<close> is \<^verbatim>\<open>undefined\<close>, \<open>Some None\<close> is \<^verbatim>\<open>null\<close>), the
  dynamic imports issued so far, in order, and the console output so far.
\<close>

record resolver =
  cached :: "PtyImplementation option"
  import_calls :: "string list"
  console :: "console_call list"

definition initial :: resolver where
  "initial = \<lparr>cached = None, import_calls = [], console = []\<rparr>"

definition isTermux :: "process \<Rightarrow> bool" where
  "isTermux p =
     (platform p = ''android'' \<or>
      (case env p ''PREFIX'' of None \<Rightarrow> False | Some v \<Rightarrow> str_includes v ''com.termux''))"

definition isLinuxArm64 :: "process \<Rightarrow> bool" where
  "isLinuxArm64 p = (platform p = ''linux'' \<and> arch p = ''arm64'')"

text \<open>
  What \<^verbatim>\<open>await import(moduleName)\<close> gives: the module namespace object (its property list)
  or a rejection with the thrown value.
\<close>

datatype import_outcome = Resolved "(string \<times> jsval) list" | Rejected thrown

text \<open>
  The \<^verbatim>\<open>try\<close> block of \<^verbatim>\<open>loadProvider\<close> from the point where the import has settled;
  \<open>Inl e\<close> is an exception leaving the block.
\<close>

definition loadProvider_try ::
  "import_outcome \<Rightarrow> bool \<Rightarrow> string \<Rightarrow> PtyProviderName \<Rightarrow> resolver
     \<Rightarrow> (thrown + PtyImplementation) \<times> resolver" where
  "loadProvider_try outcome dbg moduleName nm st =
     (case outcome of
        Rejected e \<Rightarrow> (Inl e, st)
      | Resolved ns \<Rightarrow>
          (let ns_obj = JObj ns;
               impl = nullish_coalesce (get_prop ns_obj ''default'') ns_obj
           in if \<not> truthy (opt_chain impl ''spawn'')
              then (Inr None,
                    st\<lparr>console := logDebug dbg
                       ''Native module invalid export: missing spawn function'' [] (console st)\<rparr>)
              else (Inr (Some \<lparr>module = impl, name = nm\<rparr>),
                    st\<lparr>console := logDebug dbg
                       ''Native module loaded:'' [ArgStr moduleName] (console st)\<rparr>)))"

text \<open>The \<^verbatim>\<open>try\<close> block with its \<^verbatim>\<open>catch\<close> handler: all of \<^verbatim>\<open>loadProvider\<close> after the await.\<close>

definition loadProvider_settle ::
  "import_outcome \<Rightarrow> bool \<Rightarrow> string \<Rightarrow> PtyProviderName \<Rightarrow> resolver
     \<Rightarrow> (thrown + PtyImplementation) \<times> resolver" where
  "loadProvider_settle outcome dbg moduleName nm st =
     (case loadProvider_try outcome dbg moduleName nm st of
        (Inl e, st') \<Rightarrow>
          (Inr None,
           if instanceof_Error e \<and> error_code e \<noteq> Some ''MODULE_NOT_FOUND''
           then st'\<lparr>console := logError ''Unexpected error loading native module:'' (Some e) (console st')\<rparr>
           else st')
      | (Inr r, st') \<Rightarrow> (Inr r, st'))"

text \<open>The call \<^verbatim>\<open>import(moduleName)\<close> is recorded when it is issued.\<close>

definition import_issued :: "string \<Rightarrow> resolver \<Rightarrow> resolver" where
  "import_issued moduleName st = st\<lparr>import_calls := import_calls st @ [moduleName]\<rparr>"

text \<open>\<^verbatim>\<open>loadProvider\<close>, awaited to its end: \<open>imp\<close> tells how each import settles.\<close>

definition loadProvider ::
  "(string \<Rightarrow> import_outcome) \<Rightarrow> bool \<Rightarrow> string \<Rightarrow> PtyProviderName \<Rightarrow> resolver
     \<Rightarrow> (thrown + PtyImplementation) \<times> resolver" where
  "loadProvider imp dbg moduleName nm st =
     loadProvider_settle (imp moduleName) dbg moduleName nm (import_issued moduleName st)"

text \<open>
  The three blocks of \<^verbatim>\<open>getPty\<close> after the cache test. A block gives \<open>Some r\<close> when it
  returns (or an awaited call throws), \<open>None\<close> when control falls through to the next block.
\<close>

definition priority1 ::
  "(string \<Rightarrow> import_outcome) \<Rightarrow> process \<Rightarrow> resolver
     \<Rightarrow> (thrown + PtyImplementation) option \<times> resolver" where
  "priority1 imp p st =
     (if isTermux p then
        (case loadProvider imp (PTY_DEBUG p) ''@mmmbuto/node-pty-android-arm64'' Mmmbuto_node_pty st of
           (Inl e, s) \<Rightarrow> (Some (Inl e), s)
         | (Inr pty, s) \<Rightarrow>
             (if pty \<noteq> None then (Some (Inr pty), s\<lparr>cached := Some pty\<rparr>)
              else (None, s\<lparr>console := logDebug (PTY_DEBUG p)
                             ''Termux PTY not found, trying next provider'' [] (console s)\<rparr>)))
      else (None, st))"

definition priority2 ::
  "(string \<Rightarrow> import_outcome) \<Rightarrow> process \<Rightarrow> resolver
     \<Rightarrow> (thrown + PtyImplementation) option \<times> resolver" where
  "priority2 imp p st =
     (if \<not> isTermux p \<and> isLinuxArm64 p then
        (case loadProvider imp (PTY_DEBUG p) ''@lydell/node-pty-linux-arm64'' Lydell_node_pty_linux_arm64 st of
           (Inl e, s) \<Rightarrow> (Some (Inl e), s)
         | (Inr pty, s) \<Rightarrow>
             (if pty \<noteq> None then (Some (Inr pty), s\<lparr>cached := Some pty\<rparr>)
              else (None, s\<lparr>console := logDebug (PTY_DEBUG p)
                             ''Linux ARM64 PTY not found, using fallback adapter'' [] (console s)\<rparr>)))
      else (None, st))"

definition priority3 :: "process \<Rightarrow> resolver \<Rightarrow> (thrown + PtyImplementation) \<times> resolver" where
  "priority3 p st =
     (Inr None,
      st\<lparr>console := logDebug (PTY_DEBUG p)
            ''Using fallback PTY adapter with child_process'' [] (console st),
         cached := Some None\<rparr>)"

text \<open>
  One call of \<^verbatim>\<open>getPty\<close>, awaited to its end before anything else runs: \<open>Inl e\<close> is a
  rejected promise, \<open>Inr r\<close> the value it resolves to.
\<close>

definition getPty ::
  "(string \<Rightarrow> import_outcome) \<Rightarrow> process \<Rightarrow> resolver \<Rightarrow> (thrown + PtyImplementation) \<times> resolver" where
  "getPty imp p st =
     (case cached st of
        Some c \<Rightarrow> (Inr c, st)
      | None \<Rightarrow>
          (case priority1 imp p st of
             (Some r, s1) \<Rightarrow> (r, s1)
           | (None, s1) \<Rightarrow>
               (case priority2 imp p s1 of
                  (Some r, s2) \<Rightarrow> (r, s2)
                | (None, s2) \<Rightarrow> priority3 p s2)))"

text \<open>A run of calls, each awaited before the next is made; each may see the imports settle differently.\<close>

fun getPty_calls ::
  "(string \<Rightarrow> import_outcome) list \<Rightarrow> process \<Rightarrow> resolver
     \<Rightarrow> (thrown + PtyImplementation) list \<times> resolver" where
  "getPty_calls [] p st = ([], st)"
| "getPty_calls (imp # imps) p st =
     (case getPty imp p st of
        (r, s) \<Rightarrow> (case getPty_calls imps p s of (rs, s') \<Rightarrow> (r # rs, s')))"

subsection \<open>The single-provider getPty.ts\<close>

text \<open>
  The repository also holds the earlier \<^verbatim>\<open>getPty\<close> that knows the Android module only; it
  writes the cache on each of its return paths.
\<close>

definition isAndroid :: "process \<Rightarrow> bool" where
  "isAndroid p =
     (platform p = ''android'' \<or>
      (case env p ''PREFIX'' of None \<Rightarrow> False | Some v \<Rightarrow> str_includes v ''com.termux''))"

definition getPty_android_try ::
  "import_outcome \<Rightarrow> bool \<Rightarrow> string \<Rightarrow> resolver \<Rightarrow> (thrown + PtyImplementation) \<times> resolver" where
  "getPty_android_try outcome dbg moduleName st =
     (case outcome of
        Rejected e \<Rightarrow> (Inl e, st)
      | Resolved ns \<Rightarrow>
          (let ns_obj = JObj ns;
               impl = nullish_coalesce (get_prop ns_obj ''default'') ns_obj
           in if \<not> truthy (opt_chain impl ''spawn'')
              then (Inr None,
                    st\<lparr>console := logDebug dbg
                         ''Native module invalid export: missing spawn function'' [] (console st),
                       cached := Some None\<rparr>)
              else (Inr (Some \<lparr>module = impl, name = Mmmbuto_node_pty\<rparr>),
                    st\<lparr>console := logDebug dbg
                         ''Native module loaded:'' [ArgStr moduleName] (console st),
                       cached := Some (Some \<lparr>module = impl, name = Mmmbuto_node_pty\<rparr>)\<rparr>)))"

definition getPty_android ::
  "(string \<Rightarrow> import_outcome) \<Rightarrow> process \<Rightarrow> resolver \<Rightarrow> (thrown + PtyImplementation) \<times> resolver" where
  "getPty_android imp p st =
     (case cached st of
        Some c \<Rightarrow> (Inr c, st)
      | None \<Rightarrow>
          (if \<not> isAndroid p
           then (Inr None,
                 st\<lparr>console := logDebug (PTY_DEBUG p)
                      ''Not on Android/Termux, skipping native PTY'' [] (console st),
                    cached := Some None\<rparr>)
           else
             (let moduleName = ''@mmmbuto/node-pty-android-arm64'' in
              case getPty_android_try (imp moduleName) (PTY_DEBUG p) moduleName
                     (import_issued moduleName st) of
                (Inl e, s) \<Rightarrow>
                  (let s1 = s\<lparr>console := logDebug (PTY_DEBUG p)
                                 ''Native module not found, using fallback adapter'' [] (console s)\<rparr>;
                       s2 = (if instanceof_Error e \<and> error_code e \<noteq> Some ''MODULE_NOT_FOUND''
                             then s1\<lparr>console := logError ''Unexpected error loading native module:''
                                                  (Some e) (console s1)\<rparr>
                             else s1)
                   in (Inr None, s2\<lparr>cached := Some None\<rparr>))
              | (Inr r, s) \<Rightarrow> (Inr r, s))))"

fun getPty_android_calls ::
  "(string \<Rightarrow> import_outcome) list \<Rightarrow> process \<Rightarrow> resolver
     \<Rightarrow> (thrown + PtyImplementation) list \<times> resolver" where
  "getPty_android_calls [] p st = ([], st)"
| "getPty_android_calls (imp # imps) p st =
     (case getPty_android imp p st of
        (r, s) \<Rightarrow> (case getPty_android_calls imps p s of (rs, s') \<Rightarrow> (r # rs, s')))"

subsection \<open>Resolution as a walk over the applicable providers\<close>

text \<open>
  The guards of the two provider blocks, read as a classifier: the providers whose block
  is entered, in the order of the blocks, each with its module target.
\<close>

definition applicable :: "process \<Rightarrow> (string \<times> PtyProviderName) list" where
  "applicable p =
     (if isTermux p then [(''@mmmbuto/node-pty-android-arm64'', Mmmbuto_node_pty)] else []) @
     (if \<not> isTermux p \<and> isLinuxArm64 p
      then [(''@lydell/node-pty-linux-arm64'', Lydell_node_pty_linux_arm64)] else [])"

text \<open>
  The resolution the specification describes: load each listed provider in order and stop
  at the first that is not \<^verbatim>\<open>null\<close>.
\<close>

fun first_available ::
  "(string \<Rightarrow> import_outcome) \<Rightarrow> bool \<Rightarrow> (string \<times> PtyProviderName) list \<Rightarrow> resolver
     \<Rightarrow> PtyImplementation \<times> string list" where
  "first_available imp dbg [] st = (None, [])"
| "first_available imp dbg ((moduleName, nm) # rest) st =
     (case loadProvider imp dbg moduleName nm st of
        (Inr (Some pty), s) \<Rightarrow> (Some pty, [moduleName])
      | (_, s) \<Rightarrow>
          (case first_available imp dbg rest s of (r, ms) \<Rightarrow> (r, moduleName # ms)))"

subsection \<open>Calls that overlap\<close>

text \<open>
  \<^verbatim>\<open>getPty\<close> is an async function: a call runs until its next \<^verbatim>\<open>await\<close>, and other calls run
  in between. A call in progress is a task: not started, suspended at the import of one of
  the two modules, or settled with its result. One step runs a task from where it stands to
  its next suspension; the pieces are those of \<open>getPty\<close> above.
\<close>

datatype task = NotStarted | AwaitTermux | AwaitLinux | Settled "thrown + PtyImplementation"

definition enter_priority2 :: "process \<Rightarrow> resolver \<Rightarrow> task \<times> resolver" where
  "enter_priority2 p st =
     (if \<not> isTermux p \<and> isLinuxArm64 p
      then (AwaitLinux, import_issued ''@lydell/node-pty-linux-arm64'' st)
      else (case priority3 p st of (r, s) \<Rightarrow> (Settled r, s)))"

definition start :: "process \<Rightarrow> resolver \<Rightarrow> task \<times> resolver" where
  "start p st =
     (case cached st of
        Some c \<Rightarrow> (Settled (Inr c), st)
      | None \<Rightarrow>
          (if isTermux p then (AwaitTermux, import_issued ''@mmmbuto/node-pty-android-arm64'' st)
           else enter_priority2 p st))"

definition after_termux :: "import_outcome \<Rightarrow> process \<Rightarrow> resolver \<Rightarrow> task \<times> resolver" where
  "after_termux outcome p st =
     (case loadProvider_settle outcome (PTY_DEBUG p) ''@mmmbuto/node-pty-android-arm64''
             Mmmbuto_node_pty st of
        (Inl e, s) \<Rightarrow> (Settled (Inl e), s)
      | (Inr pty, s) \<Rightarrow>
          (if pty \<noteq> None then (Settled (Inr pty), s\<lparr>cached := Some pty\<rparr>)
           else enter_priority2 p
                  (s\<lparr>console := logDebug (PTY_DEBUG p)
                        ''Termux PTY not found, trying next provider'' [] (console s)\<rparr>)))"

definition after_linux :: "import_outcome \<Rightarrow> process \<Rightarrow> resolver \<Rightarrow> task \<times> resolver" where
  "after_linux outcome p st =
     (case loadProvider_settle outcome (PTY_DEBUG p) ''@lydell/node-pty-linux-arm64''
             Lydell_node_pty_linux_arm64 st of
        (Inl e, s) \<Rightarrow> (Settled (Inl e), s)
      | (Inr pty, s) \<Rightarrow>
          (if pty \<noteq> None then (Settled (Inr pty), s\<lparr>cached := Some pty\<rparr>)
           else (case priority3 p
                        (s\<lparr>console := logDebug (PTY_DEBUG p)
                              ''Linux ARM64 PTY not found, using fallback adapter'' [] (console s)\<rparr>) of
                   (r, s') \<Rightarrow> (Settled r, s'))))"

fun task_step ::
  "(string \<Rightarrow> import_outcome) \<Rightarrow> process \<Rightarrow> task \<Rightarrow> resolver \<Rightarrow> task \<times> resolver" where
  "task_step imp p NotStarted st = start p st"
| "task_step imp p AwaitTermux st = after_termux (imp ''@mmmbuto/node-pty-android-arm64'') p st"
| "task_step imp p AwaitLinux st = after_linux (imp ''@lydell/node-pty-linux-arm64'') p st"
| "task_step imp p (Settled r) st = (Settled r, st)"

text \<open>
  A schedule names, step by step, the task that runs next; a number that names no task is
  skipped.
\<close>

fun schedule ::
  "(string \<Rightarrow> import_outcome) \<Rightarrow> process \<Rightarrow> nat list \<Rightarrow> task list \<times> resolver
     \<Rightarrow> task list \<times> resolver" where
  "schedule imp p [] c = c"
| "schedule imp p (i # is) (ts, st) =
     (if i < length ts
      then (case task_step imp p (ts ! i) st of (t, s) \<Rightarrow> schedule imp p is (ts[i := t], s))
      else schedule imp p is (ts, st))"

text \<open>
  Two notions for reasoning about schedules. A task is in order, for the result \<open>R\<close> of an
  undisturbed call, when it is suspended only at an import its guard allows and, once
  settled, holds \<open>R\<close>. A task counts as started once it has left \<open>NotStarted\<close>.
\<close>

definition task_ok :: "process \<Rightarrow> PtyImplementation \<Rightarrow> task \<Rightarrow> bool" where
  "task_ok p R t =
     (t = NotStarted \<or> (t = AwaitTermux \<and> isTermux p) \<or>
      (t = AwaitLinux \<and> \<not> isTermux p \<and> isLinuxArm64 p) \<or> t = Settled (Inr R))"

definition started :: "task \<Rightarrow> nat" where
  "started t = (if t = NotStarted then 0 else 1)"

subsection \<open>What the error sink receives from one load\<close>

text \<open>
  The console calls of \<^verbatim>\<open>loadProvider\<close> that do not depend on the debug flag: the one line
  of its \<^verbatim>\<open>catch\<close> handler, for an \<^verbatim>\<open>Error\<close> whose code is not \<^verbatim>\<open>MODULE_NOT_FOUND\<close>.
\<close>

definition unexpected :: "import_outcome \<Rightarrow> console_call list" where
  "unexpected outcome =
     (case outcome of
        Resolved ns \<Rightarrow> []
      | Rejected e \<Rightarrow>
          (if instanceof_Error e \<and> error_code e \<noteq> Some ''MODULE_NOT_FOUND''
           then logError ''Unexpected error loading native module:'' (Some e) [] else []))"

section \<open>Spawning through the resolved provider\<close>

text \<open>
  \<^verbatim>\<open>IPtySpawnOptions\<close>; every field is optional. The fields \<^verbatim>\<open>name\<close> and \<^verbatim>\<open>env\<close> are
  \<open>opt_name\<close> and \<open>opt_env\<close> here, the plain names being taken by other records.
\<close>

record IPtySpawnOptions =
  opt_name :: "string option"
  cols :: "int option"
  rows :: "int option"
  cwd :: "string option"
  opt_env :: "(string \<rightharpoonup> string) option"
  handleFlowControl :: "bool option"



section \<open>The fallback adapter (pty-adapter.ts)\<close>

text \<open>
  The child process as the adapter sees it: its \<^verbatim>\<open>pid\<close>, which of its three streams exist
  (\<^verbatim>\<open>proc.stdin\<close>, \<^verbatim>\<open>proc.stdout\<close> and \<^verbatim>\<open>proc.stderr\<close> may each be \<^verbatim>\<open>null\<close>), and whether the host
  has destroyed its input stream.
\<close>

record ChildProcess =
  child_pid :: "nat option"
  stdin_piped :: bool
  stdout_piped :: bool
  stderr_piped :: bool
  stdin_destroyed :: bool

text \<open>
  What a session does to the outside, in the order it does it: a call of a data listener
  with the text, a call of an exit listener with code and signal, data passed to the child
  through its input stream, \<^verbatim>\<open>kill\<close> on the child, a console call. Listeners are named by
  numbers. The signal handed to an exit listener is a JavaScript value: the handler is
  declared with \<^verbatim>\<open>number | null\<close>, but it passes on what the child's exit event carries, and
  that is the name of the signal, a string, or \<^verbatim>\<open>null\<close>.
\<close>

datatype effect =
    DataListener nat string
  | ExitListener nat int jsval
  | StdinWrite string
  | KillCall
  | ConsoleCall console_call

text \<open>
  \<^verbatim>\<open>class PtyAdapterProcess\<close>: the fields of the object and, in \<open>effects\<close>, what it has done so
  far. The private field \<^verbatim>\<open>process\<close> is \<open>proc\<close>, the constructor's name for it.
\<close>

record PtyAdapterProcess =
  pid :: "nat option"
  proc :: ChildProcess
  dataListeners :: "nat list"
  exitListeners :: "nat list"
  effects :: "effect list"

definition new_PtyAdapterProcess :: "ChildProcess \<Rightarrow> PtyAdapterProcess" where
  "new_PtyAdapterProcess c =
     \<lparr>pid = child_pid c, proc = c, dataListeners = [], exitListeners = [], effects = []\<rparr>"

definition emit :: "effect list \<Rightarrow> PtyAdapterProcess \<Rightarrow> PtyAdapterProcess" where
  "emit es s = s\<lparr>effects := effects s @ es\<rparr>"

subsection \<open>The handlers the constructor registers on the child\<close>

text \<open>
  The two stream handlers exist only where the stream does (\<^verbatim>\<open>proc.stdout?.on\<close>). The text is
  \<^verbatim>\<open>data.toString()\<close> of the chunk received.
\<close>

definition stdout_data :: "string \<Rightarrow> PtyAdapterProcess \<Rightarrow> PtyAdapterProcess" where
  "stdout_data chunk s =
     (if stdout_piped (proc s) then emit (map (\<lambda>l. DataListener l chunk) (dataListeners s)) s
      else s)"

definition stderr_data :: "string \<Rightarrow> PtyAdapterProcess \<Rightarrow> PtyAdapterProcess" where
  "stderr_data chunk s =
     (if stderr_piped (proc s) then emit (map (\<lambda>l. DataListener l chunk) (dataListeners s)) s
      else s)"

text \<open>\<^verbatim>\<open>code ?? -1\<close> and \<^verbatim>\<open>signal ?? 0\<close>; the code is a number or \<^verbatim>\<open>null\<close> (here \<open>None\<close>).\<close>

definition proc_exit :: "int option \<Rightarrow> jsval \<Rightarrow> PtyAdapterProcess \<Rightarrow> PtyAdapterProcess" where
  "proc_exit code signal s =
     (let exitCode = (case code of None \<Rightarrow> - 1 | Some c \<Rightarrow> c);
          exitSignal = nullish_coalesce signal (JNum 0)
      in emit (map (\<lambda>l. ExitListener l exitCode exitSignal) (exitListeners s)) s)"

definition proc_error :: "thrown \<Rightarrow> PtyAdapterProcess \<Rightarrow> PtyAdapterProcess" where
  "proc_error err s =
     emit (map ConsoleCall (logError ''PTY adapter process error:'' (Some err) [])) s"

subsection \<open>The child's input stream\<close>

text \<open>
  The stream \<^verbatim>\<open>proc.stdin\<close> is the host's, and so is what follows. When the child exits the
  host destroys the stream, before it emits the exit event. \<^verbatim>\<open>stream.write(data)\<close> with a
  string passes the data to the child while the stream is live; on a destroyed stream it
  returns without throwing and passes nothing on (the error it has is for the callback of
  the write, and the adapter gives none). \<open>Inl e\<close> would be an exception thrown by the call.
\<close>

definition child_exited :: "ChildProcess \<Rightarrow> ChildProcess" where
  "child_exited c = c\<lparr>stdin_destroyed := True\<rparr>"

definition stream_write :: "ChildProcess \<Rightarrow> string \<Rightarrow> thrown + effect list" where
  "stream_write c data = (if stdin_destroyed c then Inr [] else Inr [StdinWrite data])"

subsection \<open>The methods\<close>

text \<open>
  The method \<^verbatim>\<open>write\<close> is \<open>write_stdin\<close> here, \<open>write\<close> being a reserved word. It is
  \<^verbatim>\<open>this.process.stdin?.write(data)\<close>: nothing without an input stream, the stream's \<^verbatim>\<open>write\<close>
  otherwise, whose exception, if it threw one, would be the method's.
\<close>

definition on :: "string \<Rightarrow> nat \<Rightarrow> PtyAdapterProcess \<Rightarrow> PtyAdapterProcess" where
  "on event listener s =
     (if event = ''data'' then s\<lparr>dataListeners := dataListeners s @ [listener]\<rparr>
      else if event = ''exit'' then s\<lparr>exitListeners := exitListeners s @ [listener]\<rparr>
      else s)"

definition write_stdin :: "string \<Rightarrow> PtyAdapterProcess \<Rightarrow> thrown + PtyAdapterProcess" where
  "write_stdin data s =
     (if stdin_piped (proc s)
      then (case stream_write (proc s) data of Inl e \<Rightarrow> Inl e | Inr es \<Rightarrow> Inr (emit es s))
      else Inr s)"

definition resize :: "bool \<Rightarrow> int \<Rightarrow> int \<Rightarrow> PtyAdapterProcess \<Rightarrow> PtyAdapterProcess" where
  "resize dbg c r s =
     emit (map ConsoleCall (logDebug dbg ''Resize not supported in fallback adapter'' [] [])) s"

definition kill :: "PtyAdapterProcess \<Rightarrow> PtyAdapterProcess" where
  "kill s = emit [KillCall] s"

subsection \<open>A session's life\<close>

text \<open>
  What happens to a session, one thing at a time: the child emits an event, or the caller
  calls a method. With the exit event comes what the host did to the input stream just
  before. A method that throws leaves the session as it was.
\<close>

datatype happening =
    StdoutData string
  | StderrData string
  | Exit "int option" jsval
  | Error thrown
  | On string nat
  | Write string
  | Resize int int
  | Kill

fun step :: "bool \<Rightarrow> PtyAdapterProcess \<Rightarrow> happening \<Rightarrow> PtyAdapterProcess" where
  "step dbg s (StdoutData chunk) = stdout_data chunk s"
| "step dbg s (StderrData chunk) = stderr_data chunk s"
| "step dbg s (Exit code signal) = proc_exit code signal (s\<lparr>proc := child_exited (proc s)\<rparr>)"
| "step dbg s (Error err) = proc_error err s"
| "step dbg s (On event listener) = on event listener s"
| "step dbg s (Write data) = (case write_stdin data s of Inl e \<Rightarrow> s | Inr s' \<Rightarrow> s')"
| "step dbg s (Resize c r) = resize dbg c r s"
| "step dbg s (Kill) = kill s"

definition run :: "bool \<Rightarrow> PtyAdapterProcess \<Rightarrow> happening list \<Rightarrow> PtyAdapterProcess" where
  "run dbg s hs = foldl (step dbg) s hs"

text \<open>What a caller can observe of a session: everything it does except its console calls.\<close>

fun observable :: "effect \<Rightarrow> bool" where
  "observable (ConsoleCall c) = False"
| "observable e = True"

fun is_exit_call :: "nat \<Rightarrow> effect \<Rightarrow> bool" where
  "is_exit_call l (ExitListener l' c g) = (l' = l)"
| "is_exit_call l e = False"

fun is_Exit :: "happening \<Rightarrow> bool" where
  "is_Exit (Exit c g) = True"
| "is_Exit h = False"

fun is_On :: "happening \<Rightarrow> bool" where
  "is_On (On e l) = True"
| "is_On h = False"

subsection \<open>createFallbackAdapter\<close>

text \<open>The options object handed to \<^verbatim>\<open>child_process.spawn\<close>.\<close>

record SpawnOptions =
  spawn_cwd :: "string option"
  spawn_env :: "(string \<rightharpoonup> string) option"

text \<open>\<^verbatim>\<open>{ cwd: options.cwd, env: options.env ? { ...process.env, ...options.env } : undefined }\<close>\<close>

definition spawn_options :: "process \<Rightarrow> IPtySpawnOptions \<Rightarrow> SpawnOptions" where
  "spawn_options p options =
     \<lparr>spawn_cwd = cwd options,
      spawn_env = (case opt_env options of None \<Rightarrow> None | Some e \<Rightarrow> Some (env p ++ e))\<rparr>"

text \<open>
  The adapter's \<^verbatim>\<open>spawn\<close>: the debug line, the host's \<^verbatim>\<open>child_process.spawn\<close> with the options
  above, and the new session around the child it returns.
\<close>

definition createFallbackAdapter_spawn ::
  "process \<Rightarrow> (string \<Rightarrow> string list \<Rightarrow> SpawnOptions \<Rightarrow> ChildProcess)
     \<Rightarrow> string \<Rightarrow> string list \<Rightarrow> IPtySpawnOptions \<Rightarrow> console_call list
     \<Rightarrow> PtyAdapterProcess \<times> console_call list" where
  "createFallbackAdapter_spawn p host_spawn file args options out =
     (new_PtyAdapterProcess (host_spawn file args (spawn_options p options)),
      logDebug (PTY_DEBUG p) ''Using fallback PTY adapter with child_process'' [] out)"

text \<open>
  The environment the child runs in. \<^verbatim>\<open>child_process.spawn\<close> is the host's: where the
  \<^verbatim>\<open>env\<close> option is \<^verbatim>\<open>undefined\<close> it gives the child \<^verbatim>\<open>process.env\<close>, its documented default.
\<close>

definition child_environment :: "process \<Rightarrow> SpawnOptions \<Rightarrow> (string \<rightharpoonup> string)" where
  "child_environment p so = (case spawn_env so of None \<Rightarrow> env p | Some e \<Rightarrow> e)"

section \<open>Example inputs\<close>

definition termux_process :: process where
  "termux_process = \<lparr>platform = ''android'', arch = ''arm64'', env = Map.empty\<rparr>"

definition darwin_process :: process where
  "darwin_process = \<lparr>platform = ''darwin'', arch = ''arm64'', env = Map.empty\<rparr>"

text \<open>A Linux ARM64 process whose \<^verbatim>\<open>PREFIX\<close> names the Termux installation.\<close>

definition termux_linux_process :: process where
  "termux_linux_process =
     \<lparr>platform = ''linux'', arch = ''arm64'',
      env = [''PREFIX'' \<mapsto> ''/data/data/com.termux/files/usr'']\<rparr>"

definition linux_arm64_process :: process where
  "linux_arm64_process = \<lparr>platform = ''linux'', arch = ''arm64'', env = Map.empty\<rparr>"

text \<open>Every module loads and exports a \<^verbatim>\<open>spawn\<close> function.\<close>

definition spawn_module :: "string \<Rightarrow> import_outcome" where
  "spawn_module m = Resolved [(''spawn'', JFun 0 [])]"

text \<open>Only the Linux ARM64 module is installed.\<close>

definition only_lydell :: "string \<Rightarrow> import_outcome" where
  "only_lydell m =
     (if m = ''@lydell/node-pty-linux-arm64'' then Resolved [(''spawn'', JFun 0 [])]
      else Rejected (JsError (Some ''MODULE_NOT_FOUND'') ''Cannot find module''))"

text \<open>Loading fails for a reason other than absence.\<close>

definition broken_module :: "string \<Rightarrow> import_outcome" where
  "broken_module m = Rejected (JsError (Some ''ERR_DLOPEN_FAILED'') ''cannot open shared object file'')"

definition no_options :: IPtySpawnOptions where
  "no_options = \<lparr>opt_name = None, cols = None, rows = None, cwd = None, opt_env = None,
                  handleFlowControl = None\<rparr>"

definition piped_child :: ChildProcess where
  "piped_child = \<lparr>child_pid = Some 4711, stdin_piped = True, stdout_piped = True,
                   stderr_piped = True, stdin_destroyed = False\<rparr>"

section \<open>Evaluation rules\<close>

lemmas resolver_defs =
  getPty_def priority1_def priority2_def priority3_def loadProvider_def loadProvider_settle_def
  loadProvider_try_def import_issued_def isTermux_def isLinuxArm64_def PTY_DEBUG_def
  logDebug_def logError_def initial_def nullish_coalesce_def opt_chain_def Let_def

lemmas example_defs =
  termux_process_def darwin_process_def termux_linux_process_def linux_arm64_process_def
  spawn_module_def only_lydell_def broken_module_def no_options_def piped_child_def

section \<open>Properties of the loader\<close>

lemma loadProvider_settle_Inr:
  "\<exists>r s. loadProvider_settle outcome dbg moduleName nm st = (Inr r, s)"
  by (simp add: loadProvider_settle_def loadProvider_try_def Let_def split: import_outcome.split)

lemma loadProvider_Inr: "\<exists>r s. loadProvider imp dbg moduleName nm st = (Inr r, s)"
  by (simp add: loadProvider_def loadProvider_settle_Inr)






section \<open>Properties of resolution\<close>

lemma priority1_cases:
  "(\<exists>s. priority1 imp p st = (None, s)) \<or>
   (\<exists>pty s. priority1 imp p st = (Some (Inr (Some pty)), s) \<and> cached s = Some (Some pty))"
proof (cases "isTermux p")
  case False
  then show ?thesis by (simp add: priority1_def)
next
  case True
  obtain r s where
    "loadProvider imp (PTY_DEBUG p) ''@mmmbuto/node-pty-android-arm64'' Mmmbuto_node_pty st = (Inr r, s)"
    using loadProvider_Inr by blast
  with True show ?thesis by (cases r) (simp_all add: priority1_def)
qed

lemma priority2_cases:
  "(\<exists>s. priority2 imp p st = (None, s)) \<or>
   (\<exists>pty s. priority2 imp p st = (Some (Inr (Some pty)), s) \<and> cached s = Some (Some pty))"
proof (cases "\<not> isTermux p \<and> isLinuxArm64 p")
  case False
  then have "priority2 imp p st = (None, st)" by (auto simp: priority2_def)
  then show ?thesis by simp
next
  case True
  obtain r s where
    "loadProvider imp (PTY_DEBUG p) ''@lydell/node-pty-linux-arm64'' Lydell_node_pty_linux_arm64 st = (Inr r, s)"
    using loadProvider_Inr by blast
  with True show ?thesis by (cases r) (simp_all add: priority2_def)
qed

lemma getPty_Inr: "\<exists>r s. getPty imp p st = (Inr r, s) \<and> cached s = Some r"
proof (cases "cached st")
  case (Some c)
  then show ?thesis by (simp add: getPty_def)
next
  case None
  show ?thesis
    using priority1_cases[of imp p st]
  proof (elim disjE exE conjE)
    fix pty s
    assume "priority1 imp p st = (Some (Inr (Some pty)), s)" "cached s = Some (Some pty)"
    with None show ?thesis by (simp add: getPty_def)
  next
    fix s1 assume p1: "priority1 imp p st = (None, s1)"
    show ?thesis
      using priority2_cases[of imp p s1]
    proof (elim disjE exE conjE)
      fix pty s
      assume "priority2 imp p s1 = (Some (Inr (Some pty)), s)" "cached s = Some (Some pty)"
      with None p1 show ?thesis by (simp add: getPty_def)
    next
      fix s2 assume "priority2 imp p s1 = (None, s2)"
      with None p1 show ?thesis by (simp add: getPty_def priority3_def)
    qed
  qed
qed

lemma getPty_cached: "cached st = Some c \<Longrightarrow> getPty imp p st = (Inr c, st)"
  by (simp add: getPty_def)

section \<open>The error contract of spawnPty\<close>







section \<open>Priority order\<close>

lemma loadProvider_settle_import_calls:
  "import_calls (snd (loadProvider_settle outcome dbg moduleName nm st)) = import_calls st"
  by (simp add: loadProvider_settle_def loadProvider_try_def Let_def split: import_outcome.split)

lemma loadProvider_import_calls:
  "import_calls (snd (loadProvider imp dbg moduleName nm st)) = import_calls st @ [moduleName]"
  by (simp add: loadProvider_def loadProvider_settle_import_calls import_issued_def)

lemma getPty_termux:
  assumes "cached st = None" "isTermux p"
  shows "fst (getPty imp p st) =
           fst (loadProvider imp (PTY_DEBUG p) ''@mmmbuto/node-pty-android-arm64'' Mmmbuto_node_pty st)"
    and "import_calls (snd (getPty imp p st)) = import_calls st @ [''@mmmbuto/node-pty-android-arm64'']"
proof -
  obtain r s where l:
    "loadProvider imp (PTY_DEBUG p) ''@mmmbuto/node-pty-android-arm64'' Mmmbuto_node_pty st = (Inr r, s)"
    using loadProvider_Inr by blast
  have i: "import_calls s = import_calls st @ [''@mmmbuto/node-pty-android-arm64'']"
    using loadProvider_import_calls
      [of imp "PTY_DEBUG p" "''@mmmbuto/node-pty-android-arm64''" Mmmbuto_node_pty st] l
    by simp
  show "fst (getPty imp p st) =
           fst (loadProvider imp (PTY_DEBUG p) ''@mmmbuto/node-pty-android-arm64'' Mmmbuto_node_pty st)"
    using assms l by (cases r) (simp_all add: getPty_def priority1_def priority2_def priority3_def)
  show "import_calls (snd (getPty imp p st)) = import_calls st @ [''@mmmbuto/node-pty-android-arm64'']"
    using assms l i by (cases r) (simp_all add: getPty_def priority1_def priority2_def priority3_def)
qed

lemma getPty_linux:
  assumes "cached st = None" "\<not> isTermux p" "isLinuxArm64 p"
  shows "fst (getPty imp p st) =
           fst (loadProvider imp (PTY_DEBUG p) ''@lydell/node-pty-linux-arm64''
                  Lydell_node_pty_linux_arm64 st)"
    and "import_calls (snd (getPty imp p st)) = import_calls st @ [''@lydell/node-pty-linux-arm64'']"
proof -
  obtain r s where l:
    "loadProvider imp (PTY_DEBUG p) ''@lydell/node-pty-linux-arm64'' Lydell_node_pty_linux_arm64 st
       = (Inr r, s)"
    using loadProvider_Inr by blast
  have i: "import_calls s = import_calls st @ [''@lydell/node-pty-linux-arm64'']"
    using loadProvider_import_calls
      [of imp "PTY_DEBUG p" "''@lydell/node-pty-linux-arm64''" Lydell_node_pty_linux_arm64 st] l
    by simp
  show "fst (getPty imp p st) =
           fst (loadProvider imp (PTY_DEBUG p) ''@lydell/node-pty-linux-arm64''
                  Lydell_node_pty_linux_arm64 st)"
    using assms l by (cases r) (simp_all add: getPty_def priority1_def priority2_def priority3_def)
  show "import_calls (snd (getPty imp p st)) = import_calls st @ [''@lydell/node-pty-linux-arm64'']"
    using assms l i by (cases r) (simp_all add: getPty_def priority1_def priority2_def priority3_def)
qed

lemma getPty_neither:
  assumes "cached st = None" "\<not> isTermux p" "\<not> isLinuxArm64 p"
  shows "fst (getPty imp p st) = Inr None"
    and "import_calls (snd (getPty imp p st)) = import_calls st"
  using assms by (simp_all add: getPty_def priority1_def priority2_def priority3_def)

lemma getPty_first_available:
  assumes "cached st = None"
  shows "fst (getPty imp p st) = Inr (fst (first_available imp (PTY_DEBUG p) (applicable p) st)) \<and>
         import_calls (snd (getPty imp p st)) =
           import_calls st @ snd (first_available imp (PTY_DEBUG p) (applicable p) st)"
proof -
  consider (t) "isTermux p" | (l) "\<not> isTermux p" "isLinuxArm64 p"
    | (n) "\<not> isTermux p" "\<not> isLinuxArm64 p"
    by blast
  then show ?thesis
  proof cases
    case t
    obtain r s where l:
      "loadProvider imp (PTY_DEBUG p) ''@mmmbuto/node-pty-android-arm64'' Mmmbuto_node_pty st
         = (Inr r, s)"
      using loadProvider_Inr by blast
    show ?thesis
      using t l getPty_termux[OF assms t, of imp]
      by (cases r) (simp_all add: applicable_def)
  next
    case l
    obtain r s where e:
      "loadProvider imp (PTY_DEBUG p) ''@lydell/node-pty-linux-arm64'' Lydell_node_pty_linux_arm64 st
         = (Inr r, s)"
      using loadProvider_Inr by blast
    show ?thesis
      using l e getPty_linux[OF assms l, of imp]
      by (cases r) (simp_all add: applicable_def)
  next
    case n
    then show ?thesis
      using getPty_neither[OF assms n, of imp] by (simp add: applicable_def)
  qed
qed

text \<open>
  Claim C1 fails as stated. Take a process on which both detection predicates hold
  (platform \<^verbatim>\<open>linux\<close>, architecture \<^verbatim>\<open>arm64\<close>, and a \<^verbatim>\<open>PREFIX\<close> that contains \<^verbatim>\<open>com.termux\<close>)
  and on which only the Linux ARM64 module is installed: alone, the loader returns that
  provider. \<^verbatim>\<open>getPty\<close> imports the Termux module only and resolves to \<^verbatim>\<open>null\<close>; the claim says
  it returns the Linux ARM64 provider.
\<close>

theorem getPty_termux_excludes_linux_arm64:
  "isTermux termux_linux_process \<and> isLinuxArm64 termux_linux_process \<and>
   fst (loadProvider only_lydell False ''@lydell/node-pty-linux-arm64''
          Lydell_node_pty_linux_arm64 initial) =
     Inr (Some \<lparr>module = JObj [(''spawn'', JFun 0 [])], name = Lydell_node_pty_linux_arm64\<rparr>) \<and>
   fst (getPty only_lydell termux_linux_process initial) = Inr None \<and>
   import_calls (snd (getPty only_lydell termux_linux_process initial)) =
     [''@mmmbuto/node-pty-android-arm64'']"
  by (simp add: resolver_defs example_defs)

text \<open>
  Claim C1, amended. The block of the Linux ARM64 provider is guarded by
  \<^verbatim>\<open>!isTermux && isLinuxArm64\<close>, so the two providers are never applicable together: on a
  Termux process the Termux provider alone is applicable, on any other Linux ARM64 process
  the Linux ARM64 provider alone, elsewhere none. With an empty cache \<^verbatim>\<open>getPty\<close> loads the
  applicable providers in that order, returns the first that is not \<^verbatim>\<open>null\<close>, and \<^verbatim>\<open>null\<close> if
  there is none; it imports exactly the modules of the providers it tried.
\<close>

theorem getPty_priority_order:
  "cached st = None \<Longrightarrow>
   fst (getPty imp p st) = Inr (fst (first_available imp (PTY_DEBUG p) (applicable p) st)) \<and>
   import_calls (snd (getPty imp p st)) =
     import_calls st @ snd (first_available imp (PTY_DEBUG p) (applicable p) st) \<and>
   applicable p =
     (if isTermux p then [(''@mmmbuto/node-pty-android-arm64'', Mmmbuto_node_pty)]
      else if isLinuxArm64 p then [(''@lydell/node-pty-linux-arm64'', Lydell_node_pty_linux_arm64)]
      else [])"
  using getPty_first_available[of st imp p] by (simp add: applicable_def)

theorem getPty_priority_order_witness:
  "cached initial = None \<and>
   fst (getPty only_lydell linux_arm64_process initial) =
     Inr (Some \<lparr>module = JObj [(''spawn'', JFun 0 [])], name = Lydell_node_pty_linux_arm64\<rparr>) \<and>
   import_calls (snd (getPty only_lydell linux_arm64_process initial)) =
     [''@lydell/node-pty-linux-arm64'']"
proof -
  have c: "cached initial = None" by (simp add: initial_def)
  show ?thesis
    using c getPty_priority_order[OF c, of only_lydell linux_arm64_process]
    by (simp add: applicable_def loadProvider_def loadProvider_settle_def loadProvider_try_def
        import_issued_def isTermux_def isLinuxArm64_def PTY_DEBUG_def logDebug_def initial_def
        nullish_coalesce_def opt_chain_def Let_def example_defs)
qed

section \<open>Memoization\<close>

lemma getPty_calls_cached:
  "cached st = Some c \<Longrightarrow> getPty_calls imps p st = (replicate (length imps) (Inr c), st)"
  by (induction imps) (simp_all add: getPty_cached)

lemma getPty_import_calls_initial:
  "length (import_calls (snd (getPty imp p initial))) \<le> 1"
proof -
  have c: "cached initial = None" by (simp add: initial_def)
  have i: "import_calls initial = []" by (simp add: initial_def)
  consider (t) "isTermux p" | (l) "\<not> isTermux p" "isLinuxArm64 p"
    | (n) "\<not> isTermux p" "\<not> isLinuxArm64 p"
    by blast
  then show ?thesis
  proof cases
    case t
    then show ?thesis using getPty_termux(2)[OF c t, of imp] i by simp
  next
    case l
    then show ?thesis using getPty_linux(2)[OF c l, of imp] i by simp
  next
    case n
    then show ?thesis using getPty_neither(2)[OF c n, of imp] i by simp
  qed
qed

lemma count_list_short: "length ms \<le> 1 \<Longrightarrow> count_list ms m \<le> 1"
  by (cases ms) simp_all

lemma getPty_calls_first:
  "fst (getPty_calls (imp # imps) p st) = replicate (Suc (length imps)) (fst (getPty imp p st)) \<and>
   snd (getPty_calls (imp # imps) p st) = snd (getPty imp p st)"
proof -
  obtain r s where g: "getPty imp p st = (Inr r, s)" "cached s = Some r"
    using getPty_Inr by blast
  then show ?thesis by (simp add: getPty_calls_cached)
qed

lemma getPty_android_cached: "cached st = Some c \<Longrightarrow> getPty_android imp p st = (Inr c, st)"
  by (simp add: getPty_android_def)

lemma getPty_android_Inr:
  "\<exists>r s. getPty_android imp p st = (Inr r, s) \<and> cached s = Some r"
proof (cases "cached st")
  case (Some c)
  then show ?thesis by (simp add: getPty_android_def)
next
  case None
  show ?thesis
  proof (cases "imp ''@mmmbuto/node-pty-android-arm64''")
    case (Resolved ns)
    with None show ?thesis
      by (simp add: getPty_android_def getPty_android_try_def Let_def)
  next
    case (Rejected e)
    with None show ?thesis
      by (simp add: getPty_android_def getPty_android_try_def Let_def)
  qed
qed

lemma getPty_android_import_calls:
  "length (import_calls (snd (getPty_android imp p initial))) \<le> 1"
  by (cases "imp ''@mmmbuto/node-pty-android-arm64''")
     (simp_all add: getPty_android_def getPty_android_try_def import_issued_def initial_def Let_def)

lemma getPty_android_calls_cached:
  "cached st = Some c \<Longrightarrow>
   getPty_android_calls imps p st = (replicate (length imps) (Inr c), st)"
  by (induction imps) (simp_all add: getPty_android_cached)

lemma getPty_android_calls_first:
  "fst (getPty_android_calls (imp # imps) p st) =
     replicate (Suc (length imps)) (fst (getPty_android imp p st)) \<and>
   snd (getPty_android_calls (imp # imps) p st) = snd (getPty_android imp p st)"
proof -
  obtain r s where g: "getPty_android imp p st = (Inr r, s)" "cached s = Some r"
    using getPty_android_Inr by blast
  then show ?thesis by (simp add: getPty_android_calls_cached)
qed

text \<open>
  Claim C2 fails as stated. On a Termux process a second call is made before the first has
  returned, and both run to their end. Both return the same provider, but by then the
  Termux module has been imported twice; the claim says a module load is attempted at most
  once in the life of the process.
\<close>

theorem second_call_before_first_returns_imports_again:
  "schedule spawn_module termux_process [0, 1, 0, 1] ([NotStarted, NotStarted], initial) =
     ([Settled (Inr (Some \<lparr>module = JObj [(''spawn'', JFun 0 [])], name = Mmmbuto_node_pty\<rparr>)),
       Settled (Inr (Some \<lparr>module = JObj [(''spawn'', JFun 0 [])], name = Mmmbuto_node_pty\<rparr>))],
      \<lparr>cached = Some (Some \<lparr>module = JObj [(''spawn'', JFun 0 [])], name = Mmmbuto_node_pty\<rparr>),
       import_calls = [''@mmmbuto/node-pty-android-arm64'', ''@mmmbuto/node-pty-android-arm64''],
       console = []\<rparr>)"
  by (simp add: start_def after_termux_def loadProvider_settle_def loadProvider_try_def
      import_issued_def isTermux_def PTY_DEBUG_def logDebug_def nullish_coalesce_def
      opt_chain_def Let_def example_defs initial_def)

text \<open>
  Claim C2, amended. Resolution is memoized for calls that do not overlap. A call that has
  run to its end has written its result to the cache, and a call that finds the cache
  written returns that value and does nothing else: no import, no log line, no change of
  state. So in a run of calls made one after the other from the initial module state, each
  awaited before the next, every call returns what the first returned, whatever the imports
  would do at the later calls; the module state after the whole run is the state after the
  first call; and over the whole run every module is imported at most once. The same holds
  for the single-provider \<^verbatim>\<open>getPty\<close>.
\<close>

theorem getPty_memoized:
  "(\<exists>r. fst (getPty imp p st) = Inr r \<and> cached (snd (getPty imp p st)) = Some r) \<and>
   (\<forall>c. cached st = Some c \<longrightarrow> getPty imp' p st = (Inr c, st)) \<and>
   fst (getPty_calls (imp # imps) p initial) =
     replicate (Suc (length imps)) (fst (getPty imp p initial)) \<and>
   snd (getPty_calls (imp # imps) p initial) = snd (getPty imp p initial) \<and>
   count_list (import_calls (snd (getPty_calls (imp # imps) p initial))) m \<le> 1 \<and>
   (\<exists>r. fst (getPty_android imp p st) = Inr r \<and>
        cached (snd (getPty_android imp p st)) = Some r) \<and>
   (\<forall>c. cached st = Some c \<longrightarrow> getPty_android imp' p st = (Inr c, st)) \<and>
   fst (getPty_android_calls (imp # imps) p initial) =
     replicate (Suc (length imps)) (fst (getPty_android imp p initial)) \<and>
   snd (getPty_android_calls (imp # imps) p initial) = snd (getPty_android imp p initial) \<and>
   count_list (import_calls (snd (getPty_android_calls (imp # imps) p initial))) m \<le> 1"
proof -
  have a: "count_list (import_calls (snd (getPty imp p initial))) m \<le> 1"
    using getPty_import_calls_initial[of imp p] by (rule count_list_short)
  have b: "count_list (import_calls (snd (getPty_android imp p initial))) m \<le> 1"
    using getPty_android_import_calls[of imp p] by (rule count_list_short)
  have c: "\<exists>r. fst (getPty imp p st) = Inr r \<and> cached (snd (getPty imp p st)) = Some r"
    using getPty_Inr[of imp p st] by auto
  have d: "\<exists>r. fst (getPty_android imp p st) = Inr r \<and>
        cached (snd (getPty_android imp p st)) = Some r"
    using getPty_android_Inr[of imp p st] by auto
  show ?thesis
    using a b c d getPty_calls_first[of imp imps p initial]
      getPty_android_calls_first[of imp imps p initial]
    by (simp add: getPty_cached getPty_android_cached)
qed

theorem getPty_memoized_witness:
  "fst (getPty_calls [only_lydell, spawn_module, broken_module] linux_arm64_process initial) =
     [Inr (Some \<lparr>module = JObj [(''spawn'', JFun 0 [])], name = Lydell_node_pty_linux_arm64\<rparr>),
      Inr (Some \<lparr>module = JObj [(''spawn'', JFun 0 [])], name = Lydell_node_pty_linux_arm64\<rparr>),
      Inr (Some \<lparr>module = JObj [(''spawn'', JFun 0 [])], name = Lydell_node_pty_linux_arm64\<rparr>)] \<and>
   import_calls (snd (getPty_calls [only_lydell, spawn_module, broken_module]
                        linux_arm64_process initial)) = [''@lydell/node-pty-linux-arm64''] \<and>
   getPty broken_module linux_arm64_process
     (snd (getPty only_lydell linux_arm64_process initial)) =
     (Inr (Some \<lparr>module = JObj [(''spawn'', JFun 0 [])], name = Lydell_node_pty_linux_arm64\<rparr>),
      snd (getPty only_lydell linux_arm64_process initial)) \<and>
   fst (getPty_android_calls [broken_module, spawn_module] termux_process initial) =
     [Inr None, Inr None]"
proof -
  have a: "getPty only_lydell linux_arm64_process initial =
     (Inr (Some \<lparr>module = JObj [(''spawn'', JFun 0 [])], name = Lydell_node_pty_linux_arm64\<rparr>),
      \<lparr>cached = Some (Some \<lparr>module = JObj [(''spawn'', JFun 0 [])],
                              name = Lydell_node_pty_linux_arm64\<rparr>),
       import_calls = [''@lydell/node-pty-linux-arm64''], console = []\<rparr>)"
    by (simp add: resolver_defs example_defs)
  have b: "fst (getPty_android broken_module termux_process initial) = Inr None"
    by (simp add: getPty_android_def getPty_android_try_def isAndroid_def import_issued_def
        initial_def Let_def example_defs)
  have c: "cached (snd (getPty only_lydell linux_arm64_process initial)) =
     Some (Some \<lparr>module = JObj [(''spawn'', JFun 0 [])], name = Lydell_node_pty_linux_arm64\<rparr>)"
    using a by simp
  have d: "getPty broken_module linux_arm64_process
     (snd (getPty only_lydell linux_arm64_process initial)) =
     (Inr (Some \<lparr>module = JObj [(''spawn'', JFun 0 [])], name = Lydell_node_pty_linux_arm64\<rparr>),
      snd (getPty only_lydell linux_arm64_process initial))"
    using c getPty_memoized
      [where st = "snd (getPty only_lydell linux_arm64_process initial)"
         and imp' = broken_module and p = linux_arm64_process]
    by blast
  have e: "fst (getPty_calls [only_lydell, spawn_module, broken_module] linux_arm64_process
                  initial) =
       replicate (Suc (length [spawn_module, broken_module]))
         (fst (getPty only_lydell linux_arm64_process initial)) \<and>
     snd (getPty_calls [only_lydell, spawn_module, broken_module] linux_arm64_process initial) =
       snd (getPty only_lydell linux_arm64_process initial)"
    using getPty_memoized
      [where imp = only_lydell and imps = "[spawn_module, broken_module]"
         and p = linux_arm64_process]
    by blast
  have f: "fst (getPty_android_calls [broken_module, spawn_module] termux_process initial) =
       replicate (Suc (length [spawn_module])) (fst (getPty_android broken_module termux_process initial))"
    using getPty_memoized
      [where imp = broken_module and imps = "[spawn_module]" and p = termux_process]
    by blast
  show ?thesis
    using a b d e f by (simp add: numeral_3_eq_3)
qed

section \<open>The debug flag\<close>

lemma loadProvider_quiet_console:
  "console (snd (loadProvider imp False moduleName nm st)) = console st @ unexpected (imp moduleName)"
  by (simp add: loadProvider_def loadProvider_settle_def loadProvider_try_def import_issued_def
      unexpected_def logDebug_def logError_def Let_def split: import_outcome.split)

lemma getPty_quiet_console:
  assumes "\<not> PTY_DEBUG p"
  shows "console (snd (getPty imp p st)) =
     console st @
       (if cached st \<noteq> None then []
        else if isTermux p then unexpected (imp ''@mmmbuto/node-pty-android-arm64'')
        else if isLinuxArm64 p then unexpected (imp ''@lydell/node-pty-linux-arm64'')
        else [])"
proof (cases "cached st")
  case (Some c)
  then show ?thesis by (simp add: getPty_def)
next
  case None
  consider (t) "isTermux p" | (l) "\<not> isTermux p" "isLinuxArm64 p"
    | (n) "\<not> isTermux p" "\<not> isLinuxArm64 p"
    by blast
  then show ?thesis
  proof cases
    case t
    obtain r s where l:
      "loadProvider imp False ''@mmmbuto/node-pty-android-arm64'' Mmmbuto_node_pty st = (Inr r, s)"
      using loadProvider_Inr by blast
    have "console s = console st @ unexpected (imp ''@mmmbuto/node-pty-android-arm64'')"
      using loadProvider_quiet_console
        [of imp "''@mmmbuto/node-pty-android-arm64''" Mmmbuto_node_pty st] l
      by simp
    then show ?thesis
      using None t l assms
      by (cases r) (simp_all add: getPty_def priority1_def priority2_def priority3_def logDebug_def)
  next
    case l
    obtain r s where e:
      "loadProvider imp False ''@lydell/node-pty-linux-arm64'' Lydell_node_pty_linux_arm64 st
         = (Inr r, s)"
      using loadProvider_Inr by blast
    have "console s = console st @ unexpected (imp ''@lydell/node-pty-linux-arm64'')"
      using loadProvider_quiet_console
        [of imp "''@lydell/node-pty-linux-arm64''" Lydell_node_pty_linux_arm64 st] e
      by simp
    then show ?thesis
      using None l e assms
      by (cases r) (simp_all add: getPty_def priority1_def priority2_def priority3_def logDebug_def)
  next
    case n
    then show ?thesis
      using None assms
      by (simp add: getPty_def priority1_def priority2_def priority3_def logDebug_def)
  qed
qed

text \<open>
  Claim C8 fails as stated. With \<^verbatim>\<open>PTY_DEBUG\<close> unset, on a Termux process whose native module
  fails to load with an error other than \<^verbatim>\<open>MODULE_NOT_FOUND\<close>, \<^verbatim>\<open>getPty\<close> writes a line to
  \<^verbatim>\<open>console.error\<close>; the claim says the path is silent.
\<close>

theorem getPty_logs_error_without_debug:
  "\<not> PTY_DEBUG termux_process \<and>
   console (snd (getPty broken_module termux_process initial)) =
     [Console ConsoleError ''[PTY] Unexpected error loading native module:''
        [ArgThrown (JsError (Some ''ERR_DLOPEN_FAILED'') ''cannot open shared object file'')]]"
  by (simp add: resolver_defs example_defs)

text \<open>
  Claim C8, amended. The debug flag gates the debug sink only. With the flag false
  \<^verbatim>\<open>logDebug\<close> writes nothing, so the fallback adapter's \<^verbatim>\<open>spawn\<close> and \<^verbatim>\<open>resize\<close> are silent;
  \<^verbatim>\<open>logError\<close> has no gate and always writes one line to \<^verbatim>\<open>console.error\<close>. With the flag
  false, what \<^verbatim>\<open>getPty\<close> writes is exactly the error line of the one load it attempts, if that
  import rejects with an \<^verbatim>\<open>Error\<close> whose code is not \<^verbatim>\<open>MODULE_NOT_FOUND\<close>, and nothing otherwise.
\<close>

theorem debug_flag_gates_debug_sink_only:
  "logDebug False message largs out = out \<and>
   logError message err out =
     out @ [Console ConsoleError (''[PTY] '' @ message)
              [case err of None \<Rightarrow> ArgStr []
               | Some e \<Rightarrow> (if thrown_truthy e then ArgThrown e else ArgStr [])]] \<and>
   (\<not> PTY_DEBUG p \<longrightarrow>
      console (snd (getPty imp p st)) =
        console st @
          (if cached st \<noteq> None then []
           else if isTermux p then unexpected (imp ''@mmmbuto/node-pty-android-arm64'')
           else if isLinuxArm64 p then unexpected (imp ''@lydell/node-pty-linux-arm64'')
           else [])) \<and>
   (\<not> PTY_DEBUG p \<longrightarrow> snd (createFallbackAdapter_spawn p host_spawn cmd argv options out) = out) \<and>
   resize False c r s = s"
  using getPty_quiet_console[of p imp st]
  by (simp add: logDebug_def logError_def createFallbackAdapter_spawn_def resize_def emit_def)

theorem debug_flag_gates_debug_sink_only_witness:
  "\<not> PTY_DEBUG termux_process \<and>
   console (snd (getPty spawn_module termux_process initial)) = [] \<and>
   console (snd (getPty only_lydell termux_process initial)) = [] \<and>
   console (snd (getPty broken_module termux_process initial)) =
     [Console ConsoleError ''[PTY] Unexpected error loading native module:''
        [ArgThrown (JsError (Some ''ERR_DLOPEN_FAILED'') ''cannot open shared object file'')]] \<and>
   snd (createFallbackAdapter_spawn termux_process (\<lambda>file args so. piped_child) ''bash'' [] no_options []) = []"
proof -
  have d: "\<not> PTY_DEBUG termux_process" by (simp add: PTY_DEBUG_def example_defs)
  have t: "isTermux termux_process" by (simp add: isTermux_def example_defs)
  have c: "cached initial = None" "console initial = []" by (simp_all add: initial_def)
  show ?thesis
    using d t c
      debug_flag_gates_debug_sink_only
        [where p = termux_process and imp = spawn_module and st = initial and out = "[]"
           and host_spawn = "\<lambda>file args so. piped_child" and cmd = "''bash''"
           and argv = "[]" and options = no_options]
      debug_flag_gates_debug_sink_only
        [where p = termux_process and imp = only_lydell and st = initial and out = "[]"
           and host_spawn = "\<lambda>file args so. piped_child" and cmd = "''bash''"
           and argv = "[]" and options = no_options]
      debug_flag_gates_debug_sink_only
        [where p = termux_process and imp = broken_module and st = initial and out = "[]"
           and host_spawn = "\<lambda>file args so. piped_child" and cmd = "''bash''"
           and argv = "[]" and options = no_options]
    by (simp add: unexpected_def logError_def example_defs)
qed

section \<open>Calls that overlap\<close>

lemma loadProvider_settle_fst:
  "fst (loadProvider_settle outcome dbg m nm s) = fst (loadProvider_settle outcome dbg m nm s')"
  by (simp add: loadProvider_settle_def loadProvider_try_def Let_def split: import_outcome.split)

lemma getPty_initial_termux:
  assumes "isTermux p"
  shows "fst (getPty imp p initial) =
     fst (loadProvider_settle (imp ''@mmmbuto/node-pty-android-arm64'') (PTY_DEBUG p)
            ''@mmmbuto/node-pty-android-arm64'' Mmmbuto_node_pty s)"
proof -
  have c: "cached initial = None" by (simp add: initial_def)
  have "fst (getPty imp p initial) =
     fst (loadProvider_settle (imp ''@mmmbuto/node-pty-android-arm64'') (PTY_DEBUG p)
            ''@mmmbuto/node-pty-android-arm64'' Mmmbuto_node_pty
            (import_issued ''@mmmbuto/node-pty-android-arm64'' initial))"
    using getPty_termux(1)[OF c assms, of imp] by (simp add: loadProvider_def)
  also have "\<dots> = fst (loadProvider_settle (imp ''@mmmbuto/node-pty-android-arm64'') (PTY_DEBUG p)
            ''@mmmbuto/node-pty-android-arm64'' Mmmbuto_node_pty s)"
    by (rule loadProvider_settle_fst)
  finally show ?thesis .
qed

lemma getPty_initial_linux:
  assumes "\<not> isTermux p" "isLinuxArm64 p"
  shows "fst (getPty imp p initial) =
     fst (loadProvider_settle (imp ''@lydell/node-pty-linux-arm64'') (PTY_DEBUG p)
            ''@lydell/node-pty-linux-arm64'' Lydell_node_pty_linux_arm64 s)"
proof -
  have c: "cached initial = None" by (simp add: initial_def)
  have "fst (getPty imp p initial) =
     fst (loadProvider_settle (imp ''@lydell/node-pty-linux-arm64'') (PTY_DEBUG p)
            ''@lydell/node-pty-linux-arm64'' Lydell_node_pty_linux_arm64
            (import_issued ''@lydell/node-pty-linux-arm64'' initial))"
    using getPty_linux(1)[OF c assms, of imp] by (simp add: loadProvider_def)
  also have "\<dots> = fst (loadProvider_settle (imp ''@lydell/node-pty-linux-arm64'') (PTY_DEBUG p)
            ''@lydell/node-pty-linux-arm64'' Lydell_node_pty_linux_arm64 s)"
    by (rule loadProvider_settle_fst)
  finally show ?thesis .
qed

lemma getPty_initial_neither:
  assumes "\<not> isTermux p" "\<not> isLinuxArm64 p"
  shows "fst (getPty imp p initial) = Inr None"
proof -
  have c: "cached initial = None" by (simp add: initial_def)
  show ?thesis using getPty_neither(1)[OF c assms] .
qed

lemma start_invariant:
  assumes R: "fst (getPty imp p initial) = Inr R"
    and c: "cached s = None \<or> cached s = Some R"
    and st: "start p s = (t', s')"
  shows "(cached s' = None \<or> cached s' = Some R) \<and> task_ok p R t' \<and> t' \<noteq> NotStarted \<and>
         length (import_calls s') \<le> length (import_calls s) + 1"
proof (cases "cached s")
  case (Some x)
  with c st show ?thesis by (auto simp: start_def task_ok_def)
next
  case None
  consider (t) "isTermux p" | (l) "\<not> isTermux p" "isLinuxArm64 p" | (n) "\<not> isTermux p" "\<not> isLinuxArm64 p"
    by blast
  then show ?thesis
  proof cases
    case t
    with None st show ?thesis by (auto simp: start_def task_ok_def import_issued_def)
  next
    case l
    with None st show ?thesis
      by (auto simp: start_def enter_priority2_def task_ok_def import_issued_def)
  next
    case n
    have "R = None" using getPty_initial_neither[OF n, of imp] R by simp
    with n None st show ?thesis
      by (auto simp: start_def enter_priority2_def priority3_def task_ok_def)
  qed
qed

lemma after_termux_invariant:
  assumes R: "fst (getPty imp p initial) = Inr R"
    and t: "isTermux p"
    and st: "after_termux (imp ''@mmmbuto/node-pty-android-arm64'') p s = (t', s')"
  shows "cached s' = Some R \<and> t' = Settled (Inr R) \<and> import_calls s' = import_calls s"
proof -
  obtain r u where l:
    "loadProvider_settle (imp ''@mmmbuto/node-pty-android-arm64'') (PTY_DEBUG p)
       ''@mmmbuto/node-pty-android-arm64'' Mmmbuto_node_pty s = (Inr r, u)"
    using loadProvider_settle_Inr by blast
  have "r = R"
    using getPty_initial_termux[OF t, of imp s] R l by simp
  moreover have "import_calls u = import_calls s"
    using loadProvider_settle_import_calls[of "imp ''@mmmbuto/node-pty-android-arm64''" "PTY_DEBUG p"
       "''@mmmbuto/node-pty-android-arm64''" Mmmbuto_node_pty s] l by simp
  ultimately show ?thesis
    using st l t
    by (cases r) (auto simp: after_termux_def enter_priority2_def priority3_def)
qed

lemma after_linux_invariant:
  assumes R: "fst (getPty imp p initial) = Inr R"
    and t: "\<not> isTermux p" "isLinuxArm64 p"
    and st: "after_linux (imp ''@lydell/node-pty-linux-arm64'') p s = (t', s')"
  shows "cached s' = Some R \<and> t' = Settled (Inr R) \<and> import_calls s' = import_calls s"
proof -
  obtain r u where l:
    "loadProvider_settle (imp ''@lydell/node-pty-linux-arm64'') (PTY_DEBUG p)
       ''@lydell/node-pty-linux-arm64'' Lydell_node_pty_linux_arm64 s = (Inr r, u)"
    using loadProvider_settle_Inr by blast
  have "r = R"
    using getPty_initial_linux[OF t, of imp s] R l by simp
  moreover have "import_calls u = import_calls s"
    using loadProvider_settle_import_calls[of "imp ''@lydell/node-pty-linux-arm64''" "PTY_DEBUG p"
       "''@lydell/node-pty-linux-arm64''" Lydell_node_pty_linux_arm64 s] l by simp
  ultimately show ?thesis
    using st l t
    by (cases r) (auto simp: after_linux_def priority3_def)
qed

lemma task_step_invariant:
  assumes R: "fst (getPty imp p initial) = Inr R"
    and c: "cached s = None \<or> cached s = Some R"
    and ok: "task_ok p R t"
    and st: "task_step imp p t s = (t', s')"
  shows "(cached s' = None \<or> cached s' = Some R) \<and> task_ok p R t' \<and> t' \<noteq> NotStarted \<and>
         length (import_calls s') + started t \<le> length (import_calls s) + 1"
proof (cases t)
  case NotStarted
  then have e: "start p s = (t', s')" using st by simp
  show ?thesis
    using start_invariant[OF R c e] NotStarted by (simp add: started_def)
next
  case AwaitTermux
  then have it: "isTermux p" using ok by (simp add: task_ok_def)
  have e: "after_termux (imp ''@mmmbuto/node-pty-android-arm64'') p s = (t', s')"
    using st AwaitTermux by simp
  show ?thesis
    using after_termux_invariant[OF R it e] AwaitTermux
    by (simp add: task_ok_def started_def)
next
  case AwaitLinux
  then have it: "\<not> isTermux p" "isLinuxArm64 p" using ok by (simp_all add: task_ok_def)
  have e: "after_linux (imp ''@lydell/node-pty-linux-arm64'') p s = (t', s')"
    using st AwaitLinux by simp
  show ?thesis
    using after_linux_invariant[OF R it e] AwaitLinux
    by (simp add: task_ok_def started_def)
next
  case (Settled r)
  then show ?thesis
    using c ok st by (auto simp: task_ok_def started_def)
qed

lemma sum_list_update_nat:
  "i < length xs \<Longrightarrow> sum_list (xs[i := (y::nat)]) + xs ! i = sum_list xs + y"
  by (induction xs arbitrary: i) (auto split: nat.splits)

lemma schedule_invariant:
  assumes R: "fst (getPty imp p initial) = Inr R"
  shows "(cached s = None \<or> cached s = Some R) \<Longrightarrow> (\<forall>t\<in>set ts. task_ok p R t) \<Longrightarrow>
         length (import_calls s) \<le> sum_list (map started ts) \<Longrightarrow>
         schedule imp p sch (ts, s) = (ts', s') \<Longrightarrow>
         (cached s' = None \<or> cached s' = Some R) \<and> (\<forall>t\<in>set ts'. task_ok p R t) \<and>
         length (import_calls s') \<le> sum_list (map started ts') \<and> length ts' = length ts"
proof (induction sch arbitrary: ts s)
  case Nil
  then show ?case by simp
next
  case (Cons i sch)
  show ?case
  proof (cases "i < length ts")
    case False
    then have "schedule imp p sch (ts, s) = (ts', s')" using Cons.prems(4) by simp
    then show ?thesis using Cons.IH[OF Cons.prems(1) Cons.prems(2) Cons.prems(3)] by simp
  next
    case True
    obtain t u where e: "task_step imp p (ts ! i) s = (t, u)" by (cases "task_step imp p (ts ! i) s")
    have oki: "task_ok p R (ts ! i)" using Cons.prems(2) True by simp
    note inv = task_step_invariant[OF R Cons.prems(1) oki e]
    have a: "cached u = None \<or> cached u = Some R" using inv by simp
    have b: "\<forall>x\<in>set (ts[i := t]). task_ok p R x"
      using inv Cons.prems(2) set_update_subset_insert[of ts i t] by auto
    have "sum_list ((map started ts)[i := started t]) + (map started ts) ! i
            = sum_list (map started ts) + started t"
      using True by (intro sum_list_update_nat) simp
    moreover have "started t = 1" using inv by (simp add: started_def)
    ultimately have c: "length (import_calls u) \<le> sum_list (map started (ts[i := t]))"
      using inv Cons.prems(3) True by (simp add: map_update)
    have "schedule imp p sch (ts[i := t], u) = (ts', s')"
      using Cons.prems(4) True e by simp
    then show ?thesis using Cons.IH[OF a b c] by simp
  qed
qed

lemma started_le: "sum_list (map started ts) \<le> length ts"
  by (induction ts) (simp_all add: started_def)

lemma schedule_from_initial:
  assumes R: "fst (getPty imp p initial) = Inr R"
    and s: "schedule imp p sch (replicate n NotStarted, initial) = (ts', s')"
  shows "(\<forall>t\<in>set ts'. task_ok p R t) \<and> length (import_calls s') \<le> n"
proof -
  have a: "cached initial = None \<or> cached initial = Some R" by (simp add: initial_def)
  have b: "\<forall>t\<in>set (replicate n NotStarted). task_ok p R t" by (simp add: task_ok_def)
  have c: "length (import_calls initial) \<le> sum_list (map started (replicate n NotStarted))"
    by (simp add: initial_def)
  have i: "(cached s' = None \<or> cached s' = Some R) \<and> (\<forall>t\<in>set ts'. task_ok p R t) \<and>
         length (import_calls s') \<le> sum_list (map started ts') \<and>
         length ts' = length (replicate n NotStarted)"
    using schedule_invariant[OF R a b c s] .
  then have "length (import_calls s') \<le> n"
    using started_le[of ts'] by simp
  with i show ?thesis by simp
qed

lemma schedule_alone:
  "schedule imp p [0, 0] ([NotStarted], st) =
     ([Settled (fst (getPty imp p st))], snd (getPty imp p st))"
proof (cases "cached st")
  case (Some c)
  then show ?thesis by (simp add: start_def getPty_def)
next
  case None
  consider (t) "isTermux p" | (l) "\<not> isTermux p" "isLinuxArm64 p"
    | (n) "\<not> isTermux p" "\<not> isLinuxArm64 p"
    by blast
  then show ?thesis
  proof cases
    case t
    obtain r s where e:
      "loadProvider_settle (imp ''@mmmbuto/node-pty-android-arm64'') (PTY_DEBUG p)
         ''@mmmbuto/node-pty-android-arm64'' Mmmbuto_node_pty
         (import_issued ''@mmmbuto/node-pty-android-arm64'' st) = (Inr r, s)"
      using loadProvider_settle_Inr by blast
    then show ?thesis
      using None t
      by (cases r)
         (simp_all add: start_def after_termux_def enter_priority2_def getPty_def priority1_def
            priority2_def priority3_def loadProvider_def)
  next
    case l
    obtain r s where e:
      "loadProvider_settle (imp ''@lydell/node-pty-linux-arm64'') (PTY_DEBUG p)
         ''@lydell/node-pty-linux-arm64'' Lydell_node_pty_linux_arm64
         (import_issued ''@lydell/node-pty-linux-arm64'' st) = (Inr r, s)"
      using loadProvider_settle_Inr by blast
    then show ?thesis
      using None l
      by (cases r)
         (simp_all add: start_def after_linux_def enter_priority2_def getPty_def priority1_def
            priority2_def priority3_def loadProvider_def)
  next
    case n
    then show ?thesis
      using None
      by (simp add: start_def enter_priority2_def getPty_def priority1_def priority2_def
          priority3_def)
  qed
qed

text \<open>
  Claim C10 fails as stated. On a Termux process two calls are made, the second while the
  first is suspended at its import: after each has run its first step both are suspended at
  an import of their own, and the module has been imported twice. The claim says the second
  call starts no load.
\<close>

theorem overlapping_calls_import_twice:
  "schedule spawn_module termux_process [0, 1] ([NotStarted, NotStarted], initial) =
     ([AwaitTermux, AwaitTermux],
      \<lparr>cached = None,
       import_calls = [''@mmmbuto/node-pty-android-arm64'', ''@mmmbuto/node-pty-android-arm64''],
       console = []\<rparr>)"
  by (simp add: start_def import_issued_def isTermux_def example_defs initial_def)

text \<open>
  Claim C10, amended. \<^verbatim>\<open>getPty\<close> keeps no in-flight state, only the finished result. A call
  that starts while the cache is unwritten runs a resolution of its own and issues its own
  import of the applicable module, whatever other calls are suspended at that moment; a call
  that starts once the cache is written returns the cached value and imports nothing. When
  the imports settle the same way for every caller, then under every schedule of \<open>n\<close> calls
  from the initial state each call that has settled holds the result of an undisturbed
  call, and at most \<open>n\<close> imports have been issued, one per call. A call run alone, to its
  end, is \<open>getPty\<close>.
\<close>

theorem overlapping_calls_resolve_separately:
  "(cached st = None \<and> isTermux p \<longrightarrow>
      task_step imp p NotStarted st =
        (AwaitTermux, import_issued ''@mmmbuto/node-pty-android-arm64'' st)) \<and>
   (cached st = None \<and> \<not> isTermux p \<and> isLinuxArm64 p \<longrightarrow>
      task_step imp p NotStarted st =
        (AwaitLinux, import_issued ''@lydell/node-pty-linux-arm64'' st)) \<and>
   (\<forall>c. cached st = Some c \<longrightarrow> task_step imp p NotStarted st = (Settled (Inr c), st)) \<and>
   (\<forall>r. Settled r \<in> set (fst (schedule imp p sch (replicate n NotStarted, initial))) \<longrightarrow>
        r = fst (getPty imp p initial)) \<and>
   length (import_calls (snd (schedule imp p sch (replicate n NotStarted, initial)))) \<le> n \<and>
   schedule imp p [0, 0] ([NotStarted], st) =
     ([Settled (fst (getPty imp p st))], snd (getPty imp p st))"
proof -
  obtain R u where R: "getPty imp p initial = (Inr R, u)"
    using getPty_Inr by blast
  obtain ts' s' where s: "schedule imp p sch (replicate n NotStarted, initial) = (ts', s')"
    by (cases "schedule imp p sch (replicate n NotStarted, initial)")
  have inv: "(\<forall>t\<in>set ts'. task_ok p R t) \<and> length (import_calls s') \<le> n"
    using schedule_from_initial[of imp p R sch n ts' s'] R s by simp
  have settled: "\<forall>r. Settled r \<in> set ts' \<longrightarrow> r = Inr R"
  proof (intro allI impI)
    fix r assume "Settled r \<in> set ts'"
    then have "task_ok p R (Settled r)" using inv by blast
    then show "r = Inr R" by (simp add: task_ok_def)
  qed
  show ?thesis
    using settled inv R s schedule_alone[of imp p st]
    by (simp add: start_def enter_priority2_def)
qed

theorem overlapping_calls_resolve_separately_witness:
  "task_step spawn_module termux_process NotStarted
     (import_issued ''@mmmbuto/node-pty-android-arm64'' initial) =
     (AwaitTermux,
      import_issued ''@mmmbuto/node-pty-android-arm64''
        (import_issued ''@mmmbuto/node-pty-android-arm64'' initial)) \<and>
   fst (schedule spawn_module termux_process [0, 1, 0, 1] (replicate 2 NotStarted, initial)) =
     [Settled (fst (getPty spawn_module termux_process initial)),
      Settled (fst (getPty spawn_module termux_process initial))] \<and>
   length (import_calls
     (snd (schedule spawn_module termux_process [0, 1, 0, 1] (replicate 2 NotStarted, initial))))
     \<le> 2"
proof -
  have c: "cached (import_issued ''@mmmbuto/node-pty-android-arm64'' initial) = None"
    by (simp add: import_issued_def initial_def)
  have t: "isTermux termux_process" by (simp add: isTermux_def example_defs)
  have e: "\<exists>x. fst (schedule spawn_module termux_process [0, 1, 0, 1]
                       (replicate 2 NotStarted, initial)) = [Settled x, Settled x]"
    by (simp add: numeral_2_eq_2 start_def after_termux_def loadProvider_settle_def
        loadProvider_try_def import_issued_def isTermux_def PTY_DEBUG_def logDebug_def
        nullish_coalesce_def opt_chain_def Let_def example_defs initial_def)
  then obtain x where x: "fst (schedule spawn_module termux_process [0, 1, 0, 1]
                       (replicate 2 NotStarted, initial)) = [Settled x, Settled x]"
    by blast
  have "x = fst (getPty spawn_module termux_process initial)"
    using overlapping_calls_resolve_separately
      [where imp = spawn_module and p = termux_process and sch = "[0, 1, 0, 1]" and n = 2] x
    by simp
  with x have b: "fst (schedule spawn_module termux_process [0, 1, 0, 1]
      (replicate 2 NotStarted, initial)) =
     [Settled (fst (getPty spawn_module termux_process initial)),
      Settled (fst (getPty spawn_module termux_process initial))]"
    by simp
  show ?thesis
    using c t b
      overlapping_calls_resolve_separately
        [where imp = spawn_module and p = termux_process and sch = "[0, 1, 0, 1]" and n = 2
           and st = "import_issued ''@mmmbuto/node-pty-android-arm64'' initial"]
    by simp
qed

section \<open>The fallback adapter\<close>

lemmas adapter_defs =
  stdout_data_def stderr_data_def proc_exit_def proc_error_def on_def write_stdin_def
  stream_write_def child_exited_def resize_def kill_def emit_def logDebug_def logError_def
  nullish_coalesce_def Let_def

lemma run_Nil: "run dbg s [] = s"
  by (simp add: run_def)

lemma run_Cons: "run dbg s (h # hs) = run dbg (step dbg s h) hs"
  by (simp add: run_def)

lemma streams_step:
  "stdin_piped (proc (step dbg s h)) = stdin_piped (proc s) \<and>
   stdout_piped (proc (step dbg s h)) = stdout_piped (proc s) \<and>
   stderr_piped (proc (step dbg s h)) = stderr_piped (proc s)"
  by (cases h) (simp_all add: adapter_defs)

lemma destroyed_step: "stdin_destroyed (proc s) \<Longrightarrow> stdin_destroyed (proc (step dbg s h))"
  by (cases h) (simp_all add: adapter_defs)

lemma destroyed_run: "stdin_destroyed (proc s) \<Longrightarrow> stdin_destroyed (proc (run dbg s hs))"
  by (induction hs arbitrary: s) (simp_all add: run_Nil run_Cons destroyed_step)

lemma destroyed_by_exit: "is_Exit h \<Longrightarrow> stdin_destroyed (proc (step dbg s h))"
  by (cases h) (simp_all add: adapter_defs)

lemma destroyed_after_exit: "list_ex is_Exit hs \<Longrightarrow> stdin_destroyed (proc (run dbg s hs))"
proof (induction hs arbitrary: s)
  case Nil
  then show ?case by simp
next
  case (Cons h hs)
  show ?case
  proof (cases "is_Exit h")
    case True
    then show ?thesis
      using destroyed_run[OF destroyed_by_exit[OF True, of dbg s], of dbg hs]
      by (simp add: run_Cons)
  next
    case False
    then have "list_ex is_Exit hs" using Cons.prems by simp
    then show ?thesis using Cons.IH[of "step dbg s h"] by (simp add: run_Cons)
  qed
qed

lemma write_destroyed: "stdin_destroyed (proc s) \<Longrightarrow> write_stdin d s = Inr s"
  by (simp add: write_stdin_def stream_write_def emit_def)

subsection \<open>Exit and data events\<close>

lemma exit_calls_of_exit:
  "length (filter (is_exit_call l \<circ> (\<lambda>l'. ExitListener l' c g)) ls) = count_list ls l"
  by (induction ls) simp_all

lemma exit_calls_of_data: "filter (is_exit_call l \<circ> (\<lambda>l'. DataListener l' d)) ls = []"
  by (induction ls) simp_all

lemma exit_calls_of_console: "filter (is_exit_call l \<circ> ConsoleCall) cs = []"
  by (induction cs) simp_all

lemma step_exit_calls:
  assumes "\<not> is_On h"
  shows "exitListeners (step dbg s h) = exitListeners s \<and>
         length (filter (is_exit_call l) (effects (step dbg s h))) =
           length (filter (is_exit_call l) (effects s)) +
           (if is_Exit h then count_list (exitListeners s) l else 0)"
proof (cases h)
  case (Exit code signal)
  then show ?thesis by (simp add: proc_exit_def emit_def Let_def exit_calls_of_exit)
next
  case (StdoutData d)
  then show ?thesis by (simp add: stdout_data_def emit_def exit_calls_of_data)
next
  case (StderrData d)
  then show ?thesis by (simp add: stderr_data_def emit_def exit_calls_of_data)
next
  case (Error e)
  then show ?thesis by (simp add: proc_error_def emit_def exit_calls_of_console)
next
  case (On e l')
  then show ?thesis using assms by simp
next
  case (Write d)
  then show ?thesis by (simp add: write_stdin_def stream_write_def emit_def)
next
  case (Resize c r)
  then show ?thesis by (simp add: resize_def emit_def exit_calls_of_console)
next
  case Kill
  then show ?thesis by (simp add: kill_def emit_def)
qed

lemma run_exit_calls:
  "list_all (\<lambda>h. \<not> is_On h) hs \<Longrightarrow>
   exitListeners (run dbg s hs) = exitListeners s \<and>
   length (filter (is_exit_call l) (effects (run dbg s hs))) =
     length (filter (is_exit_call l) (effects s)) +
     count_list (exitListeners s) l * length (filter is_Exit hs)"
proof (induction hs arbitrary: s)
  case Nil
  then show ?case by (simp add: run_Nil)
next
  case (Cons h hs)
  then have h: "\<not> is_On h" and hs: "list_all (\<lambda>h. \<not> is_On h) hs" by simp_all
  show ?case
    using step_exit_calls[OF h, of dbg s l] Cons.IH[OF hs, of "step dbg s h"]
    by (simp add: run_Cons)
qed

text \<open>
  What an exit listener receives when the child was killed by \<^verbatim>\<open>SIGTERM\<close>: the code
  \<open>-1\<close> and, as the signal, what the event carries.
\<close>

lemma exit_by_signal_example:
  "effects (step False (on ''exit'' 2 (new_PtyAdapterProcess piped_child))
              (Exit None (JStr ''SIGTERM''))) =
     [ExitListener 2 (- 1) (JStr ''SIGTERM'')]"
  by (simp add: adapter_defs new_PtyAdapterProcess_def piped_child_def)

text \<open>
  Claim C4 fails as stated. A session has a data listener and an exit listener; the child
  emits its exit event with code 3 and then a chunk arrives on its standard output. The data
  listener is called after the exit listener; the claim says no data is delivered after the
  exit event.
\<close>

theorem data_delivered_after_exit:
  "effects (run False (new_PtyAdapterProcess piped_child)
              [On ''data'' 1, On ''exit'' 2, Exit (Some 3) JNull, StdoutData ''late'']) =
     [ExitListener 2 3 (JNum 0), DataListener 1 ''late'']"
  by (simp add: run_def adapter_defs new_PtyAdapterProcess_def piped_child_def)

text \<open>
  Claim C4, amended. The adapter keeps no record that the child has exited. For each exit
  event of the child it calls every registered exit listener once, in the order of
  registration, all with the same two arguments: as the code the event's code, or \<open>-1\<close>
  where the event has none, and as the signal \<open>0\<close> where the event has none. So, once the
  listeners are registered, an exit listener is called exactly as often as the child emits
  an exit event (once each for a child that emits it once). Data events that arrive after
  an exit event are still delivered to the data listeners.
\<close>

theorem exit_forwarded_per_event:
  "effects (step dbg s (Exit code JNull)) =
     effects s @
       map (\<lambda>l. ExitListener l (case code of None \<Rightarrow> - 1 | Some c \<Rightarrow> c) (JNum 0))
           (exitListeners s) \<and>
   (\<exists>g. effects (step dbg s (Exit code signal)) =
     effects s @
       map (\<lambda>l. ExitListener l (case code of None \<Rightarrow> - 1 | Some c \<Rightarrow> c) g)
           (exitListeners s)) \<and>
   (list_all (\<lambda>h. \<not> is_On h) hs \<longrightarrow>
      length (filter (is_exit_call l) (effects (run dbg s hs))) =
        length (filter (is_exit_call l) (effects s)) +
        count_list (exitListeners s) l * length (filter is_Exit hs)) \<and>
   effects (step dbg (step dbg s (Exit code signal)) (StdoutData chunk)) =
     effects (step dbg s (Exit code signal)) @
       (if stdout_piped (proc s) then map (\<lambda>l. DataListener l chunk) (dataListeners s) else [])"
proof (intro conjI)
  show "effects (step dbg s (Exit code JNull)) =
     effects s @
       map (\<lambda>l. ExitListener l (case code of None \<Rightarrow> - 1 | Some c \<Rightarrow> c) (JNum 0))
           (exitListeners s)"
    by (simp add: proc_exit_def emit_def nullish_coalesce_def Let_def)
next
  have "effects (step dbg s (Exit code signal)) =
     effects s @
       map (\<lambda>l. ExitListener l (case code of None \<Rightarrow> - 1 | Some c \<Rightarrow> c)
                                 (nullish_coalesce signal (JNum 0)))
           (exitListeners s)"
    by (simp add: proc_exit_def emit_def Let_def)
  then show "\<exists>g. effects (step dbg s (Exit code signal)) =
     effects s @
       map (\<lambda>l. ExitListener l (case code of None \<Rightarrow> - 1 | Some c \<Rightarrow> c) g)
           (exitListeners s)"
    by blast
next
  show "list_all (\<lambda>h. \<not> is_On h) hs \<longrightarrow>
      length (filter (is_exit_call l) (effects (run dbg s hs))) =
        length (filter (is_exit_call l) (effects s)) +
        count_list (exitListeners s) l * length (filter is_Exit hs)"
    using run_exit_calls[of hs dbg s l] by simp
next
  show "effects (step dbg (step dbg s (Exit code signal)) (StdoutData chunk)) =
     effects (step dbg s (Exit code signal)) @
       (if stdout_piped (proc s) then map (\<lambda>l. DataListener l chunk) (dataListeners s) else [])"
    by (simp add: proc_exit_def stdout_data_def child_exited_def emit_def Let_def)
qed

theorem exit_forwarded_per_event_witness:
  "effects (step False (on ''exit'' 2 (new_PtyAdapterProcess piped_child)) (Exit (Some 3) JNull)) =
     [ExitListener 2 3 (JNum 0)] \<and>
   (\<exists>g. effects (step False (on ''exit'' 2 (new_PtyAdapterProcess piped_child))
                   (Exit None (JStr ''SIGTERM''))) = [ExitListener 2 (- 1) g]) \<and>
   length (filter (is_exit_call 2)
     (effects (run False (on ''exit'' 2 (new_PtyAdapterProcess piped_child))
        [StdoutData ''a'', Write ''b'', Exit (Some 3) JNull, StderrData ''c'']))) = 1"
proof -
  have e: "exitListeners (on ''exit'' 2 (new_PtyAdapterProcess piped_child)) = [2]"
    "effects (on ''exit'' 2 (new_PtyAdapterProcess piped_child)) = []"
    by (simp_all add: on_def new_PtyAdapterProcess_def)
  show ?thesis
    using e
      exit_forwarded_per_event
        [where dbg = False and s = "on ''exit'' 2 (new_PtyAdapterProcess piped_child)"
           and code = "Some 3" and signal = JNull and l = 2
           and hs = "[StdoutData ''a'', Write ''b'', Exit (Some 3) JNull, StderrData ''c'']"]
      exit_forwarded_per_event
        [where dbg = False and s = "on ''exit'' 2 (new_PtyAdapterProcess piped_child)"
           and code = None and signal = "JStr ''SIGTERM''" and l = 2 and hs = "[]"]
    by simp
qed

subsection \<open>The child's environment\<close>

text \<open>
  Claim C6. The environment of the child of the adapter's \<^verbatim>\<open>spawn\<close>. With \<^verbatim>\<open>options.env\<close>
  present the child gets the process environment overridden entry by entry by
  \<^verbatim>\<open>options.env\<close>; with it absent the \<^verbatim>\<open>env\<close> option handed to the host is \<^verbatim>\<open>undefined\<close> and the
  child gets the process environment. In both cases every key of the process environment is
  a key of the child's. The child the session wraps is the one the host creates from these
  options.
\<close>

theorem fallback_environment_merge:
  "(\<forall>e. opt_env options = Some e \<longrightarrow>
      spawn_env (spawn_options p options) = Some (env p ++ e) \<and>
      (\<forall>k. child_environment p (spawn_options p options) k =
              (case e k of Some v \<Rightarrow> Some v | None \<Rightarrow> env p k))) \<and>
   (opt_env options = None \<longrightarrow>
      spawn_env (spawn_options p options) = None \<and>
      child_environment p (spawn_options p options) = env p) \<and>
   dom (env p) \<subseteq> dom (child_environment p (spawn_options p options)) \<and>
   proc (fst (createFallbackAdapter_spawn p host_spawn cmd argv options out)) =
     host_spawn cmd argv (spawn_options p options)"
proof (intro conjI allI impI)
  fix e assume "opt_env options = Some e"
  then show "spawn_env (spawn_options p options) = Some (env p ++ e)"
    by (simp add: spawn_options_def)
next
  fix e k assume "opt_env options = Some e"
  then show "child_environment p (spawn_options p options) k =
              (case e k of Some v \<Rightarrow> Some v | None \<Rightarrow> env p k)"
    by (simp add: spawn_options_def child_environment_def map_add_def split: option.split)
next
  assume "opt_env options = None"
  then show "spawn_env (spawn_options p options) = None"
    by (simp add: spawn_options_def)
next
  assume "opt_env options = None"
  then show "child_environment p (spawn_options p options) = env p"
    by (simp add: spawn_options_def child_environment_def)
next
  show "dom (env p) \<subseteq> dom (child_environment p (spawn_options p options))"
    by (cases "opt_env options") (auto simp: spawn_options_def child_environment_def)
next
  show "proc (fst (createFallbackAdapter_spawn p host_spawn cmd argv options out)) =
     host_spawn cmd argv (spawn_options p options)"
    by (simp add: createFallbackAdapter_spawn_def new_PtyAdapterProcess_def)
qed

theorem fallback_environment_merge_witness:
  "child_environment termux_linux_process
     (spawn_options termux_linux_process (no_options\<lparr>opt_env := Some [''TERM'' \<mapsto> ''xterm'']\<rparr>))
     ''PREFIX'' = Some ''/data/data/com.termux/files/usr'' \<and>
   child_environment termux_linux_process
     (spawn_options termux_linux_process (no_options\<lparr>opt_env := Some [''TERM'' \<mapsto> ''xterm'']\<rparr>))
     ''TERM'' = Some ''xterm'' \<and>
   child_environment termux_linux_process (spawn_options termux_linux_process no_options) =
     env termux_linux_process"
proof -
  have a: "opt_env (no_options\<lparr>opt_env := Some [''TERM'' \<mapsto> ''xterm'']\<rparr>) =
             Some [''TERM'' \<mapsto> ''xterm'']"
    by simp
  have b: "opt_env no_options = None" by (simp add: no_options_def)
  have c: "env termux_linux_process ''PREFIX'' = Some ''/data/data/com.termux/files/usr''"
    by (simp add: termux_linux_process_def)
  show ?thesis
    using a b c
      fallback_environment_merge
        [where options = "no_options\<lparr>opt_env := Some [''TERM'' \<mapsto> ''xterm'']\<rparr>"
           and p = termux_linux_process]
      fallback_environment_merge[where options = no_options and p = termux_linux_process]
    by simp
qed

subsection \<open>Write\<close>

text \<open>
  Claim C7. \<^verbatim>\<open>write\<close> on a session whose child has exited does not raise and does nothing.
  For every session and every history in which the child has emitted its exit event, the
  input stream is destroyed by then, and \<^verbatim>\<open>write\<close> returns normally and leaves the session
  as it was: nothing reaches the child, no listener is called, nothing is logged. For
  comparison, \<^verbatim>\<open>write\<close> also does nothing for a child without an input stream, and on a live
  stream it passes the data to the child.
\<close>

theorem write_after_exit_is_silent:
  "(list_ex is_Exit hs \<longrightarrow>
      write_stdin d (run dbg s hs) = Inr (run dbg s hs) \<and>
      step dbg (run dbg s hs) (Write d) = run dbg s hs) \<and>
   (\<not> stdin_piped (proc s) \<longrightarrow> write_stdin d s = Inr s) \<and>
   (stdin_piped (proc s) \<and> \<not> stdin_destroyed (proc s) \<longrightarrow>
      write_stdin d s = Inr (s\<lparr>effects := effects s @ [StdinWrite d]\<rparr>))"
proof (intro conjI impI)
  assume "list_ex is_Exit hs"
  then have "stdin_destroyed (proc (run dbg s hs))" by (rule destroyed_after_exit)
  then show w: "write_stdin d (run dbg s hs) = Inr (run dbg s hs)" by (rule write_destroyed)
  then show "step dbg (run dbg s hs) (Write d) = run dbg s hs" by simp
next
  assume "\<not> stdin_piped (proc s)"
  then show "write_stdin d s = Inr s" by (simp add: write_stdin_def)
next
  assume "stdin_piped (proc s) \<and> \<not> stdin_destroyed (proc s)"
  then show "write_stdin d s = Inr (s\<lparr>effects := effects s @ [StdinWrite d]\<rparr>)"
    by (simp add: write_stdin_def stream_write_def emit_def)
qed

theorem write_after_exit_is_silent_witness:
  "write_stdin ''late'' (run False (new_PtyAdapterProcess piped_child)
                           [Write ''early'', Exit (Some 0) JNull]) =
     Inr (run False (new_PtyAdapterProcess piped_child) [Write ''early'', Exit (Some 0) JNull]) \<and>
   effects (run False (new_PtyAdapterProcess piped_child)
              [Write ''early'', Exit (Some 0) JNull, Write ''late'']) = [StdinWrite ''early''] \<and>
   write_stdin ''early'' (new_PtyAdapterProcess piped_child) =
     Inr ((new_PtyAdapterProcess piped_child)\<lparr>effects := [StdinWrite ''early'']\<rparr>)"
proof -
  have x: "list_ex is_Exit [Write ''early'', Exit (Some 0) JNull]" by simp
  have p: "stdin_piped (proc (new_PtyAdapterProcess piped_child))"
    "\<not> stdin_destroyed (proc (new_PtyAdapterProcess piped_child))"
    "effects (new_PtyAdapterProcess piped_child) = []"
    by (simp_all add: new_PtyAdapterProcess_def piped_child_def)
  note t = write_after_exit_is_silent
    [where hs = "[Write ''early'', Exit (Some 0) JNull]" and d = "''late''" and dbg = False
       and s = "new_PtyAdapterProcess piped_child"]
  have a: "write_stdin ''late'' (run False (new_PtyAdapterProcess piped_child)
                           [Write ''early'', Exit (Some 0) JNull]) =
     Inr (run False (new_PtyAdapterProcess piped_child) [Write ''early'', Exit (Some 0) JNull])"
    using t x by blast
  have s: "step False (run False (new_PtyAdapterProcess piped_child)
                         [Write ''early'', Exit (Some 0) JNull]) (Write ''late'') =
     run False (new_PtyAdapterProcess piped_child) [Write ''early'', Exit (Some 0) JNull]"
    using t x by blast
  have c: "write_stdin ''early'' (new_PtyAdapterProcess piped_child) =
     Inr ((new_PtyAdapterProcess piped_child)\<lparr>effects := [StdinWrite ''early'']\<rparr>)"
    using p write_after_exit_is_silent
      [where d = "''early''" and s = "new_PtyAdapterProcess piped_child"]
    by simp
  have "run False (new_PtyAdapterProcess piped_child)
          [Write ''early'', Exit (Some 0) JNull, Write ''late''] =
        step False (run False (new_PtyAdapterProcess piped_child)
                      [Write ''early'', Exit (Some 0) JNull]) (Write ''late'')"
    by (simp add: run_def)
  then have "effects (run False (new_PtyAdapterProcess piped_child)
              [Write ''early'', Exit (Some 0) JNull, Write ''late'']) =
      effects (run False (new_PtyAdapterProcess piped_child) [Write ''early'', Exit (Some 0) JNull])"
    using s by simp
  also have "\<dots> = [StdinWrite ''early'']"
    using c by (simp add: run_def proc_exit_def child_exited_def emit_def Let_def
        new_PtyAdapterProcess_def)
  finally have b: "effects (run False (new_PtyAdapterProcess piped_child)
              [Write ''early'', Exit (Some 0) JNull, Write ''late'']) = [StdinWrite ''early'']" .
  show ?thesis using a b c by simp
qed

subsection \<open>Resize\<close>

lemma step_frame:
  assumes "pid s1 = pid s2" "proc s1 = proc s2" "dataListeners s1 = dataListeners s2"
    "exitListeners s1 = exitListeners s2"
    "filter observable (effects s1) = filter observable (effects s2)"
  shows "pid (step dbg s1 h) = pid (step dbg s2 h) \<and> proc (step dbg s1 h) = proc (step dbg s2 h) \<and>
         dataListeners (step dbg s1 h) = dataListeners (step dbg s2 h) \<and>
         exitListeners (step dbg s1 h) = exitListeners (step dbg s2 h) \<and>
         filter observable (effects (step dbg s1 h)) = filter observable (effects (step dbg s2 h))"
  using assms by (cases h) (simp_all add: adapter_defs)

lemma run_frame:
  "pid s1 = pid s2 \<Longrightarrow> proc s1 = proc s2 \<Longrightarrow> dataListeners s1 = dataListeners s2 \<Longrightarrow>
   exitListeners s1 = exitListeners s2 \<Longrightarrow>
   filter observable (effects s1) = filter observable (effects s2) \<Longrightarrow>
   pid (run dbg s1 hs) = pid (run dbg s2 hs) \<and> proc (run dbg s1 hs) = proc (run dbg s2 hs) \<and>
   dataListeners (run dbg s1 hs) = dataListeners (run dbg s2 hs) \<and>
   exitListeners (run dbg s1 hs) = exitListeners (run dbg s2 hs) \<and>
   filter observable (effects (run dbg s1 hs)) = filter observable (effects (run dbg s2 hs))"
proof (induction hs arbitrary: s1 s2)
  case Nil
  then show ?case by (simp add: run_Nil)
next
  case (Cons h hs)
  have f: "pid (step dbg s1 h) = pid (step dbg s2 h) \<and> proc (step dbg s1 h) = proc (step dbg s2 h) \<and>
         dataListeners (step dbg s1 h) = dataListeners (step dbg s2 h) \<and>
         exitListeners (step dbg s1 h) = exitListeners (step dbg s2 h) \<and>
         filter observable (effects (step dbg s1 h)) = filter observable (effects (step dbg s2 h))"
    using step_frame[OF Cons.prems] .
  show ?case
    using Cons.IH[of "step dbg s1 h" "step dbg s2 h"] f by (simp add: run_Cons)
qed

lemma resize_frame:
  "pid (resize dbg c r s) = pid s \<and> proc (resize dbg c r s) = proc s \<and>
   dataListeners (resize dbg c r s) = dataListeners s \<and>
   exitListeners (resize dbg c r s) = exitListeners s \<and>
   filter observable (effects (resize dbg c r s)) = filter observable (effects s)"
  by (simp add: resize_def emit_def logDebug_def)

text \<open>
  Claim C9. \<^verbatim>\<open>resize\<close> on a fallback session is a no-op for every pair of arguments. It has
  no error result: all it does is one \<^verbatim>\<open>console.debug\<close> call when the debug flag is set and
  nothing when it is not. The session's fields are unchanged, and whatever happens to the
  session afterwards (data and exit events, errors, registrations, writes, kills, further
  resizes), its listeners and the child see exactly what they would have seen without the
  resize.
\<close>

theorem resize_is_noop:
  "resize dbg c r s =
     s\<lparr>effects := effects s @
          (if dbg then [ConsoleCall (Console ConsoleDebug
                          ''[PTY] Resize not supported in fallback adapter'' [])]
           else [])\<rparr> \<and>
   filter observable (effects (run dbg (resize dbg c r s) hs)) =
     filter observable (effects (run dbg s hs)) \<and>
   pid (run dbg (resize dbg c r s) hs) = pid (run dbg s hs) \<and>
   proc (run dbg (resize dbg c r s) hs) = proc (run dbg s hs) \<and>
   dataListeners (run dbg (resize dbg c r s) hs) = dataListeners (run dbg s hs) \<and>
   exitListeners (run dbg (resize dbg c r s) hs) = exitListeners (run dbg s hs)"
proof -
  have a: "resize dbg c r s =
     s\<lparr>effects := effects s @
          (if dbg then [ConsoleCall (Console ConsoleDebug
                          ''[PTY] Resize not supported in fallback adapter'' [])]
           else [])\<rparr>"
    by (simp add: resize_def emit_def logDebug_def)
  have f: "pid (resize dbg c r s) = pid s" "proc (resize dbg c r s) = proc s"
    "dataListeners (resize dbg c r s) = dataListeners s"
    "exitListeners (resize dbg c r s) = exitListeners s"
    "filter observable (effects (resize dbg c r s)) = filter observable (effects s)"
    using resize_frame[of dbg c r s] by simp_all
  show ?thesis
    using a run_frame[OF f, of dbg hs] by simp
qed

theorem resize_is_noop_witness:
  "filter observable
     (effects (run True (resize True 120 (- 5) (on ''data'' 1 (new_PtyAdapterProcess piped_child)))
                 [StdoutData ''a'', Resize 0 0, Write ''b'', Exit (Some 0) JNull, Kill])) =
   filter observable
     (effects (run True (on ''data'' 1 (new_PtyAdapterProcess piped_child))
                 [StdoutData ''a'', Resize 0 0, Write ''b'', Exit (Some 0) JNull, Kill]))"
  using resize_is_noop
    [where dbg = True and c = 120 and r = "- 5"
       and s = "on ''data'' 1 (new_PtyAdapterProcess piped_child)"
       and hs = "[StdoutData ''a'', Resize 0 0, Write ''b'', Exit (Some 0) JNull, Kill]"]
  by (elim conjE)



end
